theory Spec2Isabelle
  imports Main
begin

section \<open>Values crossing the program's boundary\<close>

subsection \<open>JSON request bodies\<close>

text \<open>
  A request body is kept as the JSON value that \<^verbatim>\<open>json.Marshal\<close> serialises: an
  object is the list of its members in struct-field order. The request structs of the
  client hold string fields only, for which \<^verbatim>\<open>json.Marshal\<close> has no failing case, so each
  struct has a total marshalling function below, written from its \<^verbatim>\<open>json:"..."\<close> tags
  (a field tagged \<^verbatim>\<open>omitempty\<close> is left out when it is the empty string).
\<close>

datatype json =
    JNull
  | JBool bool
  | JNumber int
  | JString string
  | JArray "json list"
  | JObject "(string \<times> json) list"

definition omitempty :: "string \<Rightarrow> string \<Rightarrow> (string \<times> json) list" where
  "omitempty k v = (if v = [] then [] else [(k, JString v)])"

definition has_field :: "json \<Rightarrow> string \<Rightarrow> bool" where
  "has_field j k = (case j of JObject ms \<Rightarrow> k \<in> fst ` set ms | _ \<Rightarrow> False)"


subsection \<open>HTTP\<close>

datatype http_method = MethodGet | MethodPost | MethodDelete

record http_request =
  Method :: http_method
  URL :: string
  Header :: "(string \<times> string) list"
  Body :: "json option"

text \<open>
  What \<^verbatim>\<open>HTTPClient.Do\<close> and \<^verbatim>\<open>io.ReadAll\<close> can answer to a request that was built:
  the round trip failed, the body could not be read, or a response with a status code and
  a body arrived.
\<close>

datatype http_outcome =
    DoFailed string
  | ReadFailed string
  | Responded int string

subsection \<open>Formatting\<close>

definition digit :: "nat \<Rightarrow> char" where
  "digit n = ''0123456789'' ! n"

fun digits :: "nat \<Rightarrow> string" where
  "digits n = (if n < 10 then [digit n] else digits (n div 10) @ [digit (n mod 10)])"

declare digits.simps [simp del]

text \<open>The verb \<^verbatim>\<open>%d\<close> of \<^verbatim>\<open>fmt.Sprintf\<close> on an \<^verbatim>\<open>int\<close>.\<close>

definition fmt_d :: "int \<Rightarrow> string" where
  "fmt_d i = (if i < 0 then CHR ''-'' # digits (nat (- i)) else digits (nat i))"

subsection \<open>\<^verbatim>\<open>strings.Split\<close> with a one-byte separator\<close>

text \<open>
  \<^verbatim>\<open>strings.Split(s, sep)\<close> cuts \<open>s\<close> at every occurrence of \<open>sep\<close>; a string without the
  separator (the empty string included) gives the one-element slice holding \<open>s\<close>.
\<close>

function Split :: "string \<Rightarrow> char \<Rightarrow> string list" where
  "Split s sep =
     (if sep \<in> set s
      then takeWhile (\<lambda>c. c \<noteq> sep) s # Split (tl (dropWhile (\<lambda>c. c \<noteq> sep) s)) sep
      else [s])"
  by pat_completeness auto
termination
proof (relation "measure (\<lambda>(s, sep). length s)")
  show "wf (measure (\<lambda>(s, sep). length s))" by simp
next
  fix s :: string and sep :: char
  assume "sep \<in> set s"
  then have "dropWhile (\<lambda>c. c \<noteq> sep) s \<noteq> []" by auto
  moreover have "length (dropWhile (\<lambda>c. c \<noteq> sep) s) \<le> length s"
    by (rule length_dropWhile_le)
  ultimately have "length (tl (dropWhile (\<lambda>c. c \<noteq> sep) s)) < length s"
    by (cases "dropWhile (\<lambda>c. c \<noteq> sep) s") auto
  then show "((tl (dropWhile (\<lambda>c. c \<noteq> sep) s), sep), (s, sep)) \<in> measure (\<lambda>(s, sep). length s)"
    by simp
qed

declare Split.simps [simp del]

subsection \<open>Terraform plugin-framework values\<close>

text \<open>
  \<^verbatim>\<open>types.String\<close> is null, unknown or a known string; \<^verbatim>\<open>ValueString\<close> is the empty
  string unless the value is known, and \<^verbatim>\<open>Equal\<close> compares state and value.
\<close>

datatype tf_string = StringNull | StringUnknown | StringValue string

fun ValueString :: "tf_string \<Rightarrow> string" where
  "ValueString (StringValue s) = s"
| "ValueString StringNull = []"
| "ValueString StringUnknown = []"

fun IsNull :: "tf_string \<Rightarrow> bool" where
  "IsNull StringNull = True"
| "IsNull StringUnknown = False"
| "IsNull (StringValue s) = False"

definition Equal :: "tf_string \<Rightarrow> tf_string \<Rightarrow> bool" where
  "Equal a b = (a = b)"

datatype severity = SeverityError | SeverityWarning

record diagnostic =
  Severity :: severity
  Summary :: string
  Detail :: string

type_synonym diagnostics = "diagnostic list"

definition HasError :: "diagnostics \<Rightarrow> bool" where
  "HasError ds = list_ex (\<lambda>d. Severity d = SeverityError) ds"

definition AddError :: "diagnostics \<Rightarrow> string \<Rightarrow> string \<Rightarrow> diagnostics" where
  "AddError ds summary detail =
     ds @ [\<lparr>Severity = SeverityError, Summary = summary, Detail = detail\<rparr>]"

text \<open>
  The response of a lifecycle call: the diagnostics collected so far and the state the
  framework will store (\<open>None\<close> is the null state). The framework hands Read, Update and
  Delete a response whose state is the prior state. \<^verbatim>\<open>State.Set\<close> of a model struct that
  matches the schema replaces the state and reports nothing.
\<close>

record 'm response =
  Diagnostics :: diagnostics
  State :: "'m option"

text \<open>
  The outcome of \<^verbatim>\<open>Plan.Get\<close>, \<^verbatim>\<open>State.Get\<close> or \<^verbatim>\<open>Config.Get\<close>: the diagnostics of
  the conversion and the model struct it filled.
\<close>

type_synonym 'm got = "diagnostics \<times> 'm"

section \<open>The Admin API client (\<^verbatim>\<open>internal/client/client.go\<close>)\<close>

definition DefaultBaseURL :: string where
  "DefaultBaseURL = ''https://api.anthropic.com''"

definition DefaultAPIVersion :: string where
  "DefaultAPIVersion = ''2023-06-01''"

text \<open>The client's \<^verbatim>\<open>http.Client\<close> is represented by its timeout, in seconds.\<close>

record Client =
  BaseURL :: string
  AdminKey :: string
  APIVersion :: string
  Timeout :: nat

definition NewClient :: "string \<Rightarrow> Client" where
  "NewClient adminKey =
     \<lparr>BaseURL = DefaultBaseURL, AdminKey = adminKey, APIVersion = DefaultAPIVersion,
      Timeout = 30\<rparr>"

definition WithBaseURL :: "Client \<Rightarrow> string \<Rightarrow> Client" where
  "WithBaseURL c baseURL = c\<lparr>BaseURL := baseURL\<rparr>"

subsection \<open>Entities\<close>

record ErrorBody =
  ErrorBody_Type :: string
  ErrorBody_Message :: string

record APIError =
  APIError_Type :: string
  APIError_Message :: string
  APIError_Error :: ErrorBody

record 'a ListResponse =
  Data :: "'a list"
  HasMore :: bool
  FirstID :: "string option"
  LastID :: "string option"

record Workspace =
  Workspace_ID :: string
  Workspace_Type :: string
  Workspace_Name :: string
  Workspace_CreatedAt :: string
  Workspace_ArchivedAt :: string
  Workspace_DisplayName :: string

record Actor =
  Actor_ID :: string
  Actor_Type :: string

record APIKey =
  APIKey_ID :: string
  APIKey_Type :: string
  APIKey_Name :: string
  APIKey_Hint :: string
  APIKey_CreatedAt :: string
  APIKey_CreatedBy :: "Actor option"
  APIKey_Status :: string
  APIKey_WorkspaceID :: string
  APIKey_Key :: string

record WorkspaceMember =
  WorkspaceMember_UserID :: string
  WorkspaceMember_WorkspaceID :: string
  WorkspaceMember_WorkspaceRole :: string
  WorkspaceMember_Type :: string

record Invite =
  Invite_ID :: string
  Invite_Type :: string
  Invite_Email :: string
  Invite_Role :: string
  Invite_Status :: string
  Invite_CreatedAt :: string
  Invite_ExpiresAt :: string
  Invite_InviterID :: string
  Invite_WorkspaceIDs :: "string list"

text \<open>The zero values of the structs, which a call returns when the response body is empty.\<close>

definition zero_Workspace :: Workspace where
  "zero_Workspace =
     \<lparr>Workspace_ID = [], Workspace_Type = [], Workspace_Name = [], Workspace_CreatedAt = [],
      Workspace_ArchivedAt = [], Workspace_DisplayName = []\<rparr>"

definition zero_APIKey :: APIKey where
  "zero_APIKey =
     \<lparr>APIKey_ID = [], APIKey_Type = [], APIKey_Name = [], APIKey_Hint = [],
      APIKey_CreatedAt = [], APIKey_CreatedBy = None, APIKey_Status = [],
      APIKey_WorkspaceID = [], APIKey_Key = []\<rparr>"

definition zero_WorkspaceMember :: WorkspaceMember where
  "zero_WorkspaceMember =
     \<lparr>WorkspaceMember_UserID = [], WorkspaceMember_WorkspaceID = [],
      WorkspaceMember_WorkspaceRole = [], WorkspaceMember_Type = []\<rparr>"

definition zero_Invite :: Invite where
  "zero_Invite =
     \<lparr>Invite_ID = [], Invite_Type = [], Invite_Email = [], Invite_Role = [],
      Invite_Status = [], Invite_CreatedAt = [], Invite_ExpiresAt = [], Invite_InviterID = [],
      Invite_WorkspaceIDs = []\<rparr>"

definition zero_ListResponse :: "'a ListResponse" where
  "zero_ListResponse = \<lparr>Data = [], HasMore = False, FirstID = None, LastID = None\<rparr>"

subsection \<open>Request structs and their JSON encoding\<close>

record CreateWorkspaceRequest =
  CreateWorkspaceRequest_Name :: string

record UpdateWorkspaceRequest =
  UpdateWorkspaceRequest_Name :: string

record CreateAPIKeyRequest =
  CreateAPIKeyRequest_Name :: string
  CreateAPIKeyRequest_WorkspaceID :: string

record UpdateAPIKeyRequest =
  UpdateAPIKeyRequest_Name :: string
  UpdateAPIKeyRequest_Status :: string

record AddWorkspaceMemberRequest =
  AddWorkspaceMemberRequest_UserID :: string
  AddWorkspaceMemberRequest_WorkspaceRole :: string

record UpdateWorkspaceMemberRequest =
  UpdateWorkspaceMemberRequest_WorkspaceRole :: string

record CreateInviteRequest =
  CreateInviteRequest_Email :: string
  CreateInviteRequest_Role :: string

definition marshal_CreateWorkspaceRequest :: "CreateWorkspaceRequest \<Rightarrow> json" where
  "marshal_CreateWorkspaceRequest r = JObject [(''name'', JString (CreateWorkspaceRequest_Name r))]"

definition marshal_UpdateWorkspaceRequest :: "UpdateWorkspaceRequest \<Rightarrow> json" where
  "marshal_UpdateWorkspaceRequest r = JObject [(''name'', JString (UpdateWorkspaceRequest_Name r))]"

definition marshal_CreateAPIKeyRequest :: "CreateAPIKeyRequest \<Rightarrow> json" where
  "marshal_CreateAPIKeyRequest r =
     JObject ((''name'', JString (CreateAPIKeyRequest_Name r))
              # omitempty ''workspace_id'' (CreateAPIKeyRequest_WorkspaceID r))"

definition marshal_UpdateAPIKeyRequest :: "UpdateAPIKeyRequest \<Rightarrow> json" where
  "marshal_UpdateAPIKeyRequest r =
     JObject (omitempty ''name'' (UpdateAPIKeyRequest_Name r)
              @ omitempty ''status'' (UpdateAPIKeyRequest_Status r))"

definition marshal_AddWorkspaceMemberRequest :: "AddWorkspaceMemberRequest \<Rightarrow> json" where
  "marshal_AddWorkspaceMemberRequest r =
     JObject [(''user_id'', JString (AddWorkspaceMemberRequest_UserID r)),
              (''workspace_role'', JString (AddWorkspaceMemberRequest_WorkspaceRole r))]"

definition marshal_UpdateWorkspaceMemberRequest :: "UpdateWorkspaceMemberRequest \<Rightarrow> json" where
  "marshal_UpdateWorkspaceMemberRequest r =
     JObject [(''workspace_role'', JString (UpdateWorkspaceMemberRequest_WorkspaceRole r))]"

definition marshal_CreateInviteRequest :: "CreateInviteRequest \<Rightarrow> json" where
  "marshal_CreateInviteRequest r =
     JObject [(''email'', JString (CreateInviteRequest_Email r)),
              (''role'', JString (CreateInviteRequest_Role r))]"

subsection \<open>The environment of a call\<close>

text \<open>
  The client reaches two libraries that are no part of the repository, and the model takes
  both as parameters. \<open>new_request\<close> is \<^verbatim>\<open>http.NewRequestWithContext\<close> on a method and
  a URL: \<open>Some\<close> carries the error of a request that cannot be built (a URL that does
  not parse). \<open>http_do\<close> is \<^verbatim>\<open>HTTPClient.Do\<close> together with the remote API: given the
  requests issued before and the present one, it answers with an outcome. The
  \<open>unmarshal_\<close> fields are \<^verbatim>\<open>json.Unmarshal\<close> into a fresh value of each result type:
  \<open>Inl\<close> carries the text of the decoding error.
\<close>

record env =
  new_request :: "http_method \<Rightarrow> string \<Rightarrow> string option"
  http_do :: "http_request list \<Rightarrow> http_request \<Rightarrow> http_outcome"
  unmarshal_APIError :: "string \<Rightarrow> string + APIError"
  unmarshal_Workspace :: "string \<Rightarrow> string + Workspace"
  unmarshal_APIKey :: "string \<Rightarrow> string + APIKey"
  unmarshal_WorkspaceMember :: "string \<Rightarrow> string + WorkspaceMember"
  unmarshal_Invite :: "string \<Rightarrow> string + Invite"
  unmarshal_Workspaces :: "string \<Rightarrow> string + Workspace ListResponse"
  unmarshal_APIKeys :: "string \<Rightarrow> string + APIKey ListResponse"

text \<open>
  The wire is the list of the requests handed to \<^verbatim>\<open>HTTPClient.Do\<close> so far, oldest
  first. A request that could not be built never reaches it.
\<close>

type_synonym wire = "http_request list"

subsection \<open>The transport\<close>

definition APIError_String :: "APIError \<Rightarrow> string" where
  "APIError_String e =
     (if ErrorBody_Message (APIError_Error e) \<noteq> []
      then ErrorBody_Type (APIError_Error e) @ '': '' @ ErrorBody_Message (APIError_Error e)
      else APIError_Type e @ '': '' @ APIError_Message e)"

definition build_request :: "Client \<Rightarrow> http_method \<Rightarrow> string \<Rightarrow> json option \<Rightarrow> http_request" where
  "build_request c method path body =
     \<lparr>Method = method, URL = BaseURL c @ path,
      Header = [(''x-api-key'', AdminKey c), (''anthropic-version'', APIVersion c),
                (''Content-Type'', ''application/json'')],
      Body = body\<rparr>"

text \<open>
  \<open>result\<close> is the destination of the decoding: \<open>None\<close> for a nil destination,
  otherwise the decoder of the destination's type; \<open>zero\<close> is the destination as the
  caller declared it, returned untouched when nothing is decoded.
\<close>

definition doRequest ::
  "Client \<Rightarrow> env \<Rightarrow> http_method \<Rightarrow> string \<Rightarrow> json option \<Rightarrow> (string \<Rightarrow> string + 'a) option \<Rightarrow> 'a
     \<Rightarrow> wire \<Rightarrow> (string + 'a) \<times> wire" where
  "doRequest c e method path body result zero w =
     (case new_request e method (BaseURL c @ path) of
        Some err \<Rightarrow> (Inl (''failed to create request: '' @ err), w)
      | None \<Rightarrow>
          (let req = build_request c method path body in
           (case http_do e w req of
              DoFailed err \<Rightarrow> Inl (''request failed: '' @ err)
            | ReadFailed err \<Rightarrow> Inl (''failed to read response body: '' @ err)
            | Responded status respBody \<Rightarrow>
                if status \<ge> 400 then
                  (case unmarshal_APIError e respBody of
                     Inl err \<Rightarrow>
                       Inl (''API error (status '' @ fmt_d status @ ''): '' @ respBody)
                   | Inr apiErr \<Rightarrow>
                       Inl (''API error (status '' @ fmt_d status @ ''): ''
                            @ APIError_String apiErr))
                else
                  (case result of
                     None \<Rightarrow> Inr zero
                   | Some unmarshal \<Rightarrow>
                       if respBody \<noteq> [] then
                         (case unmarshal respBody of
                            Inl err \<Rightarrow> Inl (''failed to unmarshal response: '' @ err)
                          | Inr v \<Rightarrow> Inr v)
                       else Inr zero),
            w @ [req])))"

subsection \<open>Query strings\<close>

text \<open>
  The loop \<^verbatim>\<open>for i, p := range params\<close> that appends the parameters to the path, with
  \<^verbatim>\<open>&\<close> before every parameter but the first.
\<close>

fun append_params :: "string \<Rightarrow> nat \<Rightarrow> string list \<Rightarrow> string" where
  "append_params path i [] = path"
| "append_params path i (p # ps) =
     append_params ((if i > 0 then path @ ''&'' else path) @ p) (Suc i) ps"

definition with_query :: "string \<Rightarrow> string list \<Rightarrow> string" where
  "with_query path params =
     (if length params > 0 then append_params (path @ ''?'') 0 params else path)"

definition limit_param :: "int \<Rightarrow> string list" where
  "limit_param limit = (if limit > 0 then [''limit='' @ fmt_d limit] else [])"

definition string_param :: "string \<Rightarrow> string \<Rightarrow> string list" where
  "string_param name v = (if v \<noteq> [] then [name @ ''='' @ v] else [])"

subsection \<open>Workspace operations\<close>

definition ListWorkspaces ::
  "Client \<Rightarrow> env \<Rightarrow> int \<Rightarrow> string \<Rightarrow> string \<Rightarrow> wire \<Rightarrow> (string + Workspace ListResponse) \<times> wire" where
  "ListWorkspaces c e limit beforeID afterID w =
     (let params = limit_param limit @ string_param ''before_id'' beforeID
                   @ string_param ''after_id'' afterID;
          path = with_query ''/v1/organizations/workspaces'' params
      in doRequest c e MethodGet path None (Some (unmarshal_Workspaces e)) zero_ListResponse w)"

definition GetWorkspace :: "Client \<Rightarrow> env \<Rightarrow> string \<Rightarrow> wire \<Rightarrow> (string + Workspace) \<times> wire" where
  "GetWorkspace c e workspaceID w =
     doRequest c e MethodGet (''/v1/organizations/workspaces/'' @ workspaceID) None
       (Some (unmarshal_Workspace e)) zero_Workspace w"

definition CreateWorkspace ::
  "Client \<Rightarrow> env \<Rightarrow> CreateWorkspaceRequest \<Rightarrow> wire \<Rightarrow> (string + Workspace) \<times> wire" where
  "CreateWorkspace c e req w =
     doRequest c e MethodPost ''/v1/organizations/workspaces''
       (Some (marshal_CreateWorkspaceRequest req)) (Some (unmarshal_Workspace e)) zero_Workspace w"

definition UpdateWorkspace ::
  "Client \<Rightarrow> env \<Rightarrow> string \<Rightarrow> UpdateWorkspaceRequest \<Rightarrow> wire \<Rightarrow> (string + Workspace) \<times> wire" where
  "UpdateWorkspace c e workspaceID req w =
     doRequest c e MethodPost (''/v1/organizations/workspaces/'' @ workspaceID)
       (Some (marshal_UpdateWorkspaceRequest req)) (Some (unmarshal_Workspace e)) zero_Workspace w"

definition ArchiveWorkspace :: "Client \<Rightarrow> env \<Rightarrow> string \<Rightarrow> wire \<Rightarrow> (string + Workspace) \<times> wire" where
  "ArchiveWorkspace c e workspaceID w =
     doRequest c e MethodPost (''/v1/organizations/workspaces/'' @ workspaceID @ ''/archive'') None
       (Some (unmarshal_Workspace e)) zero_Workspace w"

subsection \<open>API key operations\<close>

definition ListAPIKeys ::
  "Client \<Rightarrow> env \<Rightarrow> int \<Rightarrow> string \<Rightarrow> string \<Rightarrow> string \<Rightarrow> string \<Rightarrow> wire
     \<Rightarrow> (string + APIKey ListResponse) \<times> wire" where
  "ListAPIKeys c e limit beforeID afterID status workspaceID w =
     (let params = limit_param limit @ string_param ''before_id'' beforeID
                   @ string_param ''after_id'' afterID @ string_param ''status'' status
                   @ string_param ''workspace_id'' workspaceID;
          path = with_query ''/v1/organizations/api_keys'' params
      in doRequest c e MethodGet path None (Some (unmarshal_APIKeys e)) zero_ListResponse w)"

definition GetAPIKey :: "Client \<Rightarrow> env \<Rightarrow> string \<Rightarrow> wire \<Rightarrow> (string + APIKey) \<times> wire" where
  "GetAPIKey c e apiKeyID w =
     doRequest c e MethodGet (''/v1/organizations/api_keys/'' @ apiKeyID) None
       (Some (unmarshal_APIKey e)) zero_APIKey w"

definition CreateAPIKey ::
  "Client \<Rightarrow> env \<Rightarrow> CreateAPIKeyRequest \<Rightarrow> wire \<Rightarrow> (string + APIKey) \<times> wire" where
  "CreateAPIKey c e req w =
     doRequest c e MethodPost ''/v1/organizations/api_keys''
       (Some (marshal_CreateAPIKeyRequest req)) (Some (unmarshal_APIKey e)) zero_APIKey w"

definition UpdateAPIKey ::
  "Client \<Rightarrow> env \<Rightarrow> string \<Rightarrow> UpdateAPIKeyRequest \<Rightarrow> wire \<Rightarrow> (string + APIKey) \<times> wire" where
  "UpdateAPIKey c e apiKeyID req w =
     doRequest c e MethodPost (''/v1/organizations/api_keys/'' @ apiKeyID)
       (Some (marshal_UpdateAPIKeyRequest req)) (Some (unmarshal_APIKey e)) zero_APIKey w"

text \<open>\<^verbatim>\<open>DeleteAPIKey\<close> drops the key returned by the update and keeps its error.\<close>

definition DeleteAPIKey :: "Client \<Rightarrow> env \<Rightarrow> string \<Rightarrow> wire \<Rightarrow> string option \<times> wire" where
  "DeleteAPIKey c e apiKeyID w =
     (case UpdateAPIKey c e apiKeyID
             \<lparr>UpdateAPIKeyRequest_Name = [], UpdateAPIKeyRequest_Status = ''archived''\<rparr> w of
        (Inl err, w') \<Rightarrow> (Some err, w')
      | (Inr _, w') \<Rightarrow> (None, w'))"

subsection \<open>Workspace member operations\<close>

definition GetWorkspaceMember ::
  "Client \<Rightarrow> env \<Rightarrow> string \<Rightarrow> string \<Rightarrow> wire \<Rightarrow> (string + WorkspaceMember) \<times> wire" where
  "GetWorkspaceMember c e workspaceID userID w =
     doRequest c e MethodGet
       (''/v1/organizations/workspaces/'' @ workspaceID @ ''/members/'' @ userID) None
       (Some (unmarshal_WorkspaceMember e)) zero_WorkspaceMember w"

definition AddWorkspaceMember ::
  "Client \<Rightarrow> env \<Rightarrow> string \<Rightarrow> AddWorkspaceMemberRequest \<Rightarrow> wire
     \<Rightarrow> (string + WorkspaceMember) \<times> wire" where
  "AddWorkspaceMember c e workspaceID req w =
     doRequest c e MethodPost (''/v1/organizations/workspaces/'' @ workspaceID @ ''/members'')
       (Some (marshal_AddWorkspaceMemberRequest req))
       (Some (unmarshal_WorkspaceMember e)) zero_WorkspaceMember w"

definition UpdateWorkspaceMember ::
  "Client \<Rightarrow> env \<Rightarrow> string \<Rightarrow> string \<Rightarrow> UpdateWorkspaceMemberRequest \<Rightarrow> wire
     \<Rightarrow> (string + WorkspaceMember) \<times> wire" where
  "UpdateWorkspaceMember c e workspaceID userID req w =
     doRequest c e MethodPost
       (''/v1/organizations/workspaces/'' @ workspaceID @ ''/members/'' @ userID)
       (Some (marshal_UpdateWorkspaceMemberRequest req))
       (Some (unmarshal_WorkspaceMember e)) zero_WorkspaceMember w"

definition error_of :: "(string + unit) \<times> wire \<Rightarrow> string option \<times> wire" where
  "error_of r = (case r of (Inl err, w') \<Rightarrow> (Some err, w') | (Inr _, w') \<Rightarrow> (None, w'))"

definition RemoveWorkspaceMember ::
  "Client \<Rightarrow> env \<Rightarrow> string \<Rightarrow> string \<Rightarrow> wire \<Rightarrow> string option \<times> wire" where
  "RemoveWorkspaceMember c e workspaceID userID w =
     error_of (doRequest c e MethodDelete
       (''/v1/organizations/workspaces/'' @ workspaceID @ ''/members/'' @ userID) None None () w)"

subsection \<open>Invite operations\<close>

definition GetInvite :: "Client \<Rightarrow> env \<Rightarrow> string \<Rightarrow> wire \<Rightarrow> (string + Invite) \<times> wire" where
  "GetInvite c e inviteID w =
     doRequest c e MethodGet (''/v1/organizations/invites/'' @ inviteID) None
       (Some (unmarshal_Invite e)) zero_Invite w"

definition CreateInvite ::
  "Client \<Rightarrow> env \<Rightarrow> CreateInviteRequest \<Rightarrow> wire \<Rightarrow> (string + Invite) \<times> wire" where
  "CreateInvite c e req w =
     doRequest c e MethodPost ''/v1/organizations/invites''
       (Some (marshal_CreateInviteRequest req)) (Some (unmarshal_Invite e)) zero_Invite w"

definition DeleteInvite :: "Client \<Rightarrow> env \<Rightarrow> string \<Rightarrow> wire \<Rightarrow> string option \<times> wire" where
  "DeleteInvite c e inviteID w =
     error_of (doRequest c e MethodDelete (''/v1/organizations/invites/'' @ inviteID) None None () w)"

section \<open>The lifecycle adapters (\<^verbatim>\<open>internal/provider\<close>)\<close>

text \<open>
  Every adapter takes the configured client, the environment, what the framework decoded
  from the plan, state or configuration, the response to fill, and the wire; it returns
  the response and the wire. The fields of a model struct carry the name of the resource
  or data source in front, since the structs share their field names.
\<close>

definition Append :: "'m response \<Rightarrow> diagnostics \<Rightarrow> 'm response" where
  "Append resp ds = resp\<lparr>Diagnostics := Diagnostics resp @ ds\<rparr>"

definition client_error :: "'m response \<Rightarrow> string \<Rightarrow> 'm response" where
  "client_error resp detail =
     resp\<lparr>Diagnostics := AddError (Diagnostics resp) ''Client Error'' detail\<rparr>"

definition State_Set :: "'m response \<Rightarrow> 'm \<Rightarrow> 'm response" where
  "State_Set resp data = resp\<lparr>State := Some data\<rparr>"

text \<open>The idiom \<^verbatim>\<open>if s != "" { StringValue(s) } else { StringNull() }\<close>.\<close>

definition value_or_null :: "string \<Rightarrow> tf_string" where
  "value_or_null s = (if s \<noteq> [] then StringValue s else StringNull)"

subsection \<open>Workspace resource\<close>

record WorkspaceResourceModel =
  WorkspaceResource_ID :: tf_string
  WorkspaceResource_Name :: tf_string
  WorkspaceResource_DisplayName :: tf_string
  WorkspaceResource_CreatedAt :: tf_string
  WorkspaceResource_ArchivedAt :: tf_string

definition WorkspaceResource_Create ::
  "Client \<Rightarrow> env \<Rightarrow> WorkspaceResourceModel got \<Rightarrow> WorkspaceResourceModel response \<Rightarrow> wire
     \<Rightarrow> WorkspaceResourceModel response \<times> wire" where
  "WorkspaceResource_Create c e plan resp w =
     (let data = snd plan; resp = Append resp (fst plan) in
      if HasError (Diagnostics resp) then (resp, w)
      else
        (case CreateWorkspace c e
                \<lparr>CreateWorkspaceRequest_Name = ValueString (WorkspaceResource_Name data)\<rparr> w of
           (Inl err, w') \<Rightarrow> (client_error resp (''Unable to create workspace: '' @ err), w')
         | (Inr workspace, w') \<Rightarrow>
             (State_Set resp
                (data\<lparr>WorkspaceResource_ID := StringValue (Workspace_ID workspace),
                      WorkspaceResource_Name := StringValue (Workspace_Name workspace),
                      WorkspaceResource_DisplayName := StringValue (Workspace_DisplayName workspace),
                      WorkspaceResource_CreatedAt := StringValue (Workspace_CreatedAt workspace),
                      WorkspaceResource_ArchivedAt := value_or_null (Workspace_ArchivedAt workspace)\<rparr>),
              w')))"

definition WorkspaceResource_Read ::
  "Client \<Rightarrow> env \<Rightarrow> WorkspaceResourceModel got \<Rightarrow> WorkspaceResourceModel response \<Rightarrow> wire
     \<Rightarrow> WorkspaceResourceModel response \<times> wire" where
  "WorkspaceResource_Read c e state resp w =
     (let data = snd state; resp = Append resp (fst state) in
      if HasError (Diagnostics resp) then (resp, w)
      else
        (case GetWorkspace c e (ValueString (WorkspaceResource_ID data)) w of
           (Inl err, w') \<Rightarrow> (client_error resp (''Unable to read workspace: '' @ err), w')
         | (Inr workspace, w') \<Rightarrow>
             (State_Set resp
                (data\<lparr>WorkspaceResource_Name := StringValue (Workspace_Name workspace),
                      WorkspaceResource_DisplayName := StringValue (Workspace_DisplayName workspace),
                      WorkspaceResource_CreatedAt := StringValue (Workspace_CreatedAt workspace),
                      WorkspaceResource_ArchivedAt := value_or_null (Workspace_ArchivedAt workspace)\<rparr>),
              w')))"

definition WorkspaceResource_Update ::
  "Client \<Rightarrow> env \<Rightarrow> WorkspaceResourceModel got \<Rightarrow> WorkspaceResourceModel response \<Rightarrow> wire
     \<Rightarrow> WorkspaceResourceModel response \<times> wire" where
  "WorkspaceResource_Update c e plan resp w =
     (let data = snd plan; resp = Append resp (fst plan) in
      if HasError (Diagnostics resp) then (resp, w)
      else
        (case UpdateWorkspace c e (ValueString (WorkspaceResource_ID data))
                \<lparr>UpdateWorkspaceRequest_Name = ValueString (WorkspaceResource_Name data)\<rparr> w of
           (Inl err, w') \<Rightarrow> (client_error resp (''Unable to update workspace: '' @ err), w')
         | (Inr workspace, w') \<Rightarrow>
             (State_Set resp
                (data\<lparr>WorkspaceResource_Name := StringValue (Workspace_Name workspace),
                      WorkspaceResource_DisplayName := StringValue (Workspace_DisplayName workspace),
                      WorkspaceResource_ArchivedAt := value_or_null (Workspace_ArchivedAt workspace)\<rparr>),
              w')))"

definition WorkspaceResource_Delete ::
  "Client \<Rightarrow> env \<Rightarrow> WorkspaceResourceModel got \<Rightarrow> WorkspaceResourceModel response \<Rightarrow> wire
     \<Rightarrow> WorkspaceResourceModel response \<times> wire" where
  "WorkspaceResource_Delete c e state resp w =
     (let data = snd state; resp = Append resp (fst state) in
      if HasError (Diagnostics resp) then (resp, w)
      else
        (case ArchiveWorkspace c e (ValueString (WorkspaceResource_ID data)) w of
           (Inl err, w') \<Rightarrow> (client_error resp (''Unable to archive workspace: '' @ err), w')
         | (Inr _, w') \<Rightarrow> (resp, w')))"

subsection \<open>API key resource\<close>

record APIKeyResourceModel =
  APIKeyResource_ID :: tf_string
  APIKeyResource_Name :: tf_string
  APIKeyResource_WorkspaceID :: tf_string
  APIKeyResource_Status :: tf_string
  APIKeyResource_Hint :: tf_string
  APIKeyResource_Key :: tf_string
  APIKeyResource_CreatedAt :: tf_string

text \<open>The request struct that Create fills from the plan.\<close>

definition create_request :: "APIKeyResourceModel \<Rightarrow> CreateAPIKeyRequest" where
  "create_request data =
     (let createReq =
            \<lparr>CreateAPIKeyRequest_Name = ValueString (APIKeyResource_Name data),
             CreateAPIKeyRequest_WorkspaceID = []\<rparr>;
          createReq =
            (if \<not> IsNull (APIKeyResource_WorkspaceID data)
             then createReq\<lparr>CreateAPIKeyRequest_WorkspaceID :=
                              ValueString (APIKeyResource_WorkspaceID data)\<rparr>
             else createReq)
      in createReq)"

definition APIKeyResource_Create ::
  "Client \<Rightarrow> env \<Rightarrow> APIKeyResourceModel got \<Rightarrow> APIKeyResourceModel response \<Rightarrow> wire
     \<Rightarrow> APIKeyResourceModel response \<times> wire" where
  "APIKeyResource_Create c e plan resp w =
     (let data = snd plan; resp = Append resp (fst plan) in
      if HasError (Diagnostics resp) then (resp, w)
      else
        (case CreateAPIKey c e (create_request data) w of
           (Inl err, w') \<Rightarrow> (client_error resp (''Unable to create API key: '' @ err), w')
         | (Inr apiKey, w') \<Rightarrow>
             (let data = data\<lparr>APIKeyResource_ID := StringValue (APIKey_ID apiKey),
                              APIKeyResource_Name := StringValue (APIKey_Name apiKey),
                              APIKeyResource_Status := StringValue (APIKey_Status apiKey),
                              APIKeyResource_Hint := StringValue (APIKey_Hint apiKey),
                              APIKeyResource_CreatedAt := StringValue (APIKey_CreatedAt apiKey),
                              APIKeyResource_Key := value_or_null (APIKey_Key apiKey)\<rparr>;
                  data = (if APIKey_WorkspaceID apiKey \<noteq> []
                          then data\<lparr>APIKeyResource_WorkspaceID :=
                                      StringValue (APIKey_WorkspaceID apiKey)\<rparr>
                          else data)
              in (State_Set resp data, w'))))"

definition APIKeyResource_Read ::
  "Client \<Rightarrow> env \<Rightarrow> APIKeyResourceModel got \<Rightarrow> APIKeyResourceModel response \<Rightarrow> wire
     \<Rightarrow> APIKeyResourceModel response \<times> wire" where
  "APIKeyResource_Read c e state resp w =
     (let data = snd state; resp = Append resp (fst state) in
      if HasError (Diagnostics resp) then (resp, w)
      else
        (case GetAPIKey c e (ValueString (APIKeyResource_ID data)) w of
           (Inl err, w') \<Rightarrow> (client_error resp (''Unable to read API key: '' @ err), w')
         | (Inr apiKey, w') \<Rightarrow>
             (let data = data\<lparr>APIKeyResource_Name := StringValue (APIKey_Name apiKey),
                              APIKeyResource_Status := StringValue (APIKey_Status apiKey),
                              APIKeyResource_Hint := StringValue (APIKey_Hint apiKey),
                              APIKeyResource_CreatedAt := StringValue (APIKey_CreatedAt apiKey)\<rparr>;
                  data = (if APIKey_WorkspaceID apiKey \<noteq> []
                          then data\<lparr>APIKeyResource_WorkspaceID :=
                                      StringValue (APIKey_WorkspaceID apiKey)\<rparr>
                          else data)
              in (State_Set resp data, w'))))"

text \<open>The request struct that Update fills from the plan and the prior state.\<close>

definition update_request :: "APIKeyResourceModel \<Rightarrow> APIKeyResourceModel \<Rightarrow> UpdateAPIKeyRequest" where
  "update_request data state =
     (let updateReq = \<lparr>UpdateAPIKeyRequest_Name = [], UpdateAPIKeyRequest_Status = []\<rparr>;
          updateReq =
            (if \<not> Equal (APIKeyResource_Name data) (APIKeyResource_Name state)
             then updateReq\<lparr>UpdateAPIKeyRequest_Name := ValueString (APIKeyResource_Name data)\<rparr>
             else updateReq);
          updateReq =
            (if \<not> Equal (APIKeyResource_Status data) (APIKeyResource_Status state)
                \<and> \<not> IsNull (APIKeyResource_Status data)
             then updateReq\<lparr>UpdateAPIKeyRequest_Status := ValueString (APIKeyResource_Status data)\<rparr>
             else updateReq)
      in updateReq)"

definition APIKeyResource_Update ::
  "Client \<Rightarrow> env \<Rightarrow> APIKeyResourceModel got \<Rightarrow> APIKeyResourceModel got
     \<Rightarrow> APIKeyResourceModel response \<Rightarrow> wire \<Rightarrow> APIKeyResourceModel response \<times> wire" where
  "APIKeyResource_Update c e plan prior resp w =
     (let data = snd plan; state = snd prior;
          resp = Append (Append resp (fst plan)) (fst prior) in
      if HasError (Diagnostics resp) then (resp, w)
      else
        (case UpdateAPIKey c e (ValueString (APIKeyResource_ID data)) (update_request data state) w of
           (Inl err, w') \<Rightarrow> (client_error resp (''Unable to update API key: '' @ err), w')
         | (Inr apiKey, w') \<Rightarrow>
             (State_Set resp
                (data\<lparr>APIKeyResource_Name := StringValue (APIKey_Name apiKey),
                      APIKeyResource_Status := StringValue (APIKey_Status apiKey),
                      APIKeyResource_Hint := StringValue (APIKey_Hint apiKey),
                      APIKeyResource_Key := APIKeyResource_Key state\<rparr>),
              w')))"

definition APIKeyResource_Delete ::
  "Client \<Rightarrow> env \<Rightarrow> APIKeyResourceModel got \<Rightarrow> APIKeyResourceModel response \<Rightarrow> wire
     \<Rightarrow> APIKeyResourceModel response \<times> wire" where
  "APIKeyResource_Delete c e state resp w =
     (let data = snd state; resp = Append resp (fst state) in
      if HasError (Diagnostics resp) then (resp, w)
      else
        (case DeleteAPIKey c e (ValueString (APIKeyResource_ID data)) w of
           (Some err, w') \<Rightarrow> (client_error resp (''Unable to delete API key: '' @ err), w')
         | (None, w') \<Rightarrow> (resp, w')))"

subsection \<open>Workspace member resource\<close>

record WorkspaceMemberResourceModel =
  WorkspaceMemberResource_ID :: tf_string
  WorkspaceMemberResource_WorkspaceID :: tf_string
  WorkspaceMemberResource_UserID :: tf_string
  WorkspaceMemberResource_WorkspaceRole :: tf_string

definition WorkspaceMemberResource_Create ::
  "Client \<Rightarrow> env \<Rightarrow> WorkspaceMemberResourceModel got \<Rightarrow> WorkspaceMemberResourceModel response
     \<Rightarrow> wire \<Rightarrow> WorkspaceMemberResourceModel response \<times> wire" where
  "WorkspaceMemberResource_Create c e plan resp w =
     (let data = snd plan; resp = Append resp (fst plan) in
      if HasError (Diagnostics resp) then (resp, w)
      else
        (case AddWorkspaceMember c e (ValueString (WorkspaceMemberResource_WorkspaceID data))
                \<lparr>AddWorkspaceMemberRequest_UserID =
                   ValueString (WorkspaceMemberResource_UserID data),
                 AddWorkspaceMemberRequest_WorkspaceRole =
                   ValueString (WorkspaceMemberResource_WorkspaceRole data)\<rparr> w of
           (Inl err, w') \<Rightarrow> (client_error resp (''Unable to add workspace member: '' @ err), w')
         | (Inr member, w') \<Rightarrow>
             (State_Set resp
                (data\<lparr>WorkspaceMemberResource_ID :=
                        StringValue (WorkspaceMember_WorkspaceID member @ ''/''
                                     @ WorkspaceMember_UserID member),
                      WorkspaceMemberResource_WorkspaceID :=
                        StringValue (WorkspaceMember_WorkspaceID member),
                      WorkspaceMemberResource_UserID := StringValue (WorkspaceMember_UserID member),
                      WorkspaceMemberResource_WorkspaceRole :=
                        StringValue (WorkspaceMember_WorkspaceRole member)\<rparr>),
              w')))"

definition WorkspaceMemberResource_Read ::
  "Client \<Rightarrow> env \<Rightarrow> WorkspaceMemberResourceModel got \<Rightarrow> WorkspaceMemberResourceModel response
     \<Rightarrow> wire \<Rightarrow> WorkspaceMemberResourceModel response \<times> wire" where
  "WorkspaceMemberResource_Read c e state resp w =
     (let data = snd state; resp = Append resp (fst state) in
      if HasError (Diagnostics resp) then (resp, w)
      else
        (case GetWorkspaceMember c e (ValueString (WorkspaceMemberResource_WorkspaceID data))
                (ValueString (WorkspaceMemberResource_UserID data)) w of
           (Inl err, w') \<Rightarrow> (client_error resp (''Unable to read workspace member: '' @ err), w')
         | (Inr member, w') \<Rightarrow>
             (State_Set resp
                (data\<lparr>WorkspaceMemberResource_WorkspaceRole :=
                        StringValue (WorkspaceMember_WorkspaceRole member)\<rparr>),
              w')))"

definition WorkspaceMemberResource_Update ::
  "Client \<Rightarrow> env \<Rightarrow> WorkspaceMemberResourceModel got \<Rightarrow> WorkspaceMemberResourceModel response
     \<Rightarrow> wire \<Rightarrow> WorkspaceMemberResourceModel response \<times> wire" where
  "WorkspaceMemberResource_Update c e plan resp w =
     (let data = snd plan; resp = Append resp (fst plan) in
      if HasError (Diagnostics resp) then (resp, w)
      else
        (case UpdateWorkspaceMember c e (ValueString (WorkspaceMemberResource_WorkspaceID data))
                (ValueString (WorkspaceMemberResource_UserID data))
                \<lparr>UpdateWorkspaceMemberRequest_WorkspaceRole =
                   ValueString (WorkspaceMemberResource_WorkspaceRole data)\<rparr> w of
           (Inl err, w') \<Rightarrow> (client_error resp (''Unable to update workspace member: '' @ err), w')
         | (Inr member, w') \<Rightarrow>
             (State_Set resp
                (data\<lparr>WorkspaceMemberResource_WorkspaceRole :=
                        StringValue (WorkspaceMember_WorkspaceRole member)\<rparr>),
              w')))"

definition WorkspaceMemberResource_Delete ::
  "Client \<Rightarrow> env \<Rightarrow> WorkspaceMemberResourceModel got \<Rightarrow> WorkspaceMemberResourceModel response
     \<Rightarrow> wire \<Rightarrow> WorkspaceMemberResourceModel response \<times> wire" where
  "WorkspaceMemberResource_Delete c e state resp w =
     (let data = snd state; resp = Append resp (fst state) in
      if HasError (Diagnostics resp) then (resp, w)
      else
        (case RemoveWorkspaceMember c e (ValueString (WorkspaceMemberResource_WorkspaceID data))
                (ValueString (WorkspaceMemberResource_UserID data)) w of
           (Some err, w') \<Rightarrow>
             (client_error resp (''Unable to remove workspace member: '' @ err), w')
         | (None, w') \<Rightarrow> (resp, w')))"

text \<open>
  \<^verbatim>\<open>State.SetAttribute\<close> writes one attribute of the state; on the null state it starts
  from the object whose attributes are all null.
\<close>

definition null_WorkspaceMemberResourceModel :: WorkspaceMemberResourceModel where
  "null_WorkspaceMemberResourceModel =
     \<lparr>WorkspaceMemberResource_ID = StringNull, WorkspaceMemberResource_WorkspaceID = StringNull,
      WorkspaceMemberResource_UserID = StringNull,
      WorkspaceMemberResource_WorkspaceRole = StringNull\<rparr>"

definition SetAttribute ::
  "WorkspaceMemberResourceModel response
     \<Rightarrow> (WorkspaceMemberResourceModel \<Rightarrow> WorkspaceMemberResourceModel)
     \<Rightarrow> WorkspaceMemberResourceModel response" where
  "SetAttribute resp upd =
     resp\<lparr>State := Some (upd (case State resp of
                                 None \<Rightarrow> null_WorkspaceMemberResourceModel
                               | Some m \<Rightarrow> m))\<rparr>"

definition WorkspaceMemberResource_ImportState ::
  "string \<Rightarrow> WorkspaceMemberResourceModel response \<Rightarrow> WorkspaceMemberResourceModel response" where
  "WorkspaceMemberResource_ImportState ID resp =
     (case Split ID CHR ''/'' of
        [p0, p1] \<Rightarrow>
          (let resp = SetAttribute resp (\<lambda>m. m\<lparr>WorkspaceMemberResource_ID := StringValue ID\<rparr>);
               resp = SetAttribute resp
                        (\<lambda>m. m\<lparr>WorkspaceMemberResource_WorkspaceID := StringValue p0\<rparr>);
               resp = SetAttribute resp (\<lambda>m. m\<lparr>WorkspaceMemberResource_UserID := StringValue p1\<rparr>)
           in resp)
      | _ \<Rightarrow>
          resp\<lparr>Diagnostics :=
                 AddError (Diagnostics resp) ''Invalid Import ID''
                   (''Expected import ID format: workspace_id/user_id, got: '' @ ID)\<rparr>)"

subsection \<open>Invite resource\<close>

record InviteResourceModel =
  InviteResource_ID :: tf_string
  InviteResource_Email :: tf_string
  InviteResource_Role :: tf_string
  InviteResource_Status :: tf_string
  InviteResource_CreatedAt :: tf_string
  InviteResource_ExpiresAt :: tf_string
  InviteResource_InviterID :: tf_string

definition InviteResource_Create ::
  "Client \<Rightarrow> env \<Rightarrow> InviteResourceModel got \<Rightarrow> InviteResourceModel response \<Rightarrow> wire
     \<Rightarrow> InviteResourceModel response \<times> wire" where
  "InviteResource_Create c e plan resp w =
     (let data = snd plan; resp = Append resp (fst plan) in
      if HasError (Diagnostics resp) then (resp, w)
      else
        (case CreateInvite c e
                \<lparr>CreateInviteRequest_Email = ValueString (InviteResource_Email data),
                 CreateInviteRequest_Role = ValueString (InviteResource_Role data)\<rparr> w of
           (Inl err, w') \<Rightarrow> (client_error resp (''Unable to create invite: '' @ err), w')
         | (Inr invite, w') \<Rightarrow>
             (State_Set resp
                (data\<lparr>InviteResource_ID := StringValue (Invite_ID invite),
                      InviteResource_Email := StringValue (Invite_Email invite),
                      InviteResource_Role := StringValue (Invite_Role invite),
                      InviteResource_Status := StringValue (Invite_Status invite),
                      InviteResource_CreatedAt := StringValue (Invite_CreatedAt invite),
                      InviteResource_ExpiresAt := StringValue (Invite_ExpiresAt invite),
                      InviteResource_InviterID := value_or_null (Invite_InviterID invite)\<rparr>),
              w')))"

definition InviteResource_Read ::
  "Client \<Rightarrow> env \<Rightarrow> InviteResourceModel got \<Rightarrow> InviteResourceModel response \<Rightarrow> wire
     \<Rightarrow> InviteResourceModel response \<times> wire" where
  "InviteResource_Read c e state resp w =
     (let data = snd state; resp = Append resp (fst state) in
      if HasError (Diagnostics resp) then (resp, w)
      else
        (case GetInvite c e (ValueString (InviteResource_ID data)) w of
           (Inl err, w') \<Rightarrow> (client_error resp (''Unable to read invite: '' @ err), w')
         | (Inr invite, w') \<Rightarrow>
             (let data = data\<lparr>InviteResource_Email := StringValue (Invite_Email invite),
                              InviteResource_Role := StringValue (Invite_Role invite),
                              InviteResource_Status := StringValue (Invite_Status invite),
                              InviteResource_ExpiresAt := StringValue (Invite_ExpiresAt invite)\<rparr>;
                  data = (if Invite_InviterID invite \<noteq> []
                          then data\<lparr>InviteResource_InviterID :=
                                      StringValue (Invite_InviterID invite)\<rparr>
                          else data)
              in (State_Set resp data, w'))))"

text \<open>Update reads neither the plan nor the state and never reaches the client.\<close>

definition InviteResource_Update ::
  "Client \<Rightarrow> env \<Rightarrow> InviteResourceModel got \<Rightarrow> InviteResourceModel got
     \<Rightarrow> InviteResourceModel response \<Rightarrow> wire \<Rightarrow> InviteResourceModel response \<times> wire" where
  "InviteResource_Update c e plan prior resp w =
     (resp\<lparr>Diagnostics :=
             AddError (Diagnostics resp) ''Update Not Supported''
               ''Invites cannot be updated. Delete and recreate the invite with the new settings.''\<rparr>,
      w)"

definition InviteResource_Delete ::
  "Client \<Rightarrow> env \<Rightarrow> InviteResourceModel got \<Rightarrow> InviteResourceModel response \<Rightarrow> wire
     \<Rightarrow> InviteResourceModel response \<times> wire" where
  "InviteResource_Delete c e state resp w =
     (let data = snd state; resp = Append resp (fst state) in
      if HasError (Diagnostics resp) then (resp, w)
      else
        (case DeleteInvite c e (ValueString (InviteResource_ID data)) w of
           (Some err, w') \<Rightarrow> (client_error resp (''Unable to delete invite: '' @ err), w')
         | (None, w') \<Rightarrow> (resp, w')))"

subsection \<open>Collection data sources\<close>

text \<open>
  The Workspaces and API Keys data sources run the same loop, written here once over the
  List call \<open>list\<close> of the data source:
  \<^verbatim>\<open>
  for {
      page, err := list(afterID)
      if err != nil { ...; return }
      all = append(all, page.Data...)
      if !page.HasMore || page.LastID == nil { break }
      afterID = *page.LastID
  }
  \<close>
  The loop has no bound of its own, so the model is a partial function: \<open>None\<close> is the
  loop that never leaves.
\<close>

partial_function (option) fetch_all ::
  "(string \<Rightarrow> wire \<Rightarrow> (string + 'a ListResponse) \<times> wire) \<Rightarrow> 'a list \<Rightarrow> string \<Rightarrow> wire
     \<Rightarrow> ((string + 'a list) \<times> wire) option" where
  "fetch_all list all afterID w =
     (case list afterID w of
        (Inl err, w') \<Rightarrow> Some (Inl err, w')
      | (Inr page, w') \<Rightarrow>
          (if \<not> HasMore page then Some (Inr (all @ Data page), w')
           else case LastID page of
                  None \<Rightarrow> Some (Inr (all @ Data page), w')
                | Some lastID \<Rightarrow> fetch_all list (all @ Data page) lastID w'))"

record WorkspaceModel =
  WorkspaceModel_ID :: tf_string
  WorkspaceModel_Name :: tf_string
  WorkspaceModel_DisplayName :: tf_string
  WorkspaceModel_CreatedAt :: tf_string
  WorkspaceModel_ArchivedAt :: tf_string

record WorkspacesDataSourceModel =
  Workspaces :: "WorkspaceModel list"

definition to_WorkspaceModel :: "Workspace \<Rightarrow> WorkspaceModel" where
  "to_WorkspaceModel ws =
     \<lparr>WorkspaceModel_ID = StringValue (Workspace_ID ws),
      WorkspaceModel_Name = StringValue (Workspace_Name ws),
      WorkspaceModel_DisplayName = StringValue (Workspace_DisplayName ws),
      WorkspaceModel_CreatedAt = StringValue (Workspace_CreatedAt ws),
      WorkspaceModel_ArchivedAt = value_or_null (Workspace_ArchivedAt ws)\<rparr>"

definition WorkspacesDataSource_Read ::
  "Client \<Rightarrow> env \<Rightarrow> WorkspacesDataSourceModel got \<Rightarrow> WorkspacesDataSourceModel response \<Rightarrow> wire
     \<Rightarrow> (WorkspacesDataSourceModel response \<times> wire) option" where
  "WorkspacesDataSource_Read c e config resp w =
     (let data = snd config; resp = Append resp (fst config) in
      if HasError (Diagnostics resp) then Some (resp, w)
      else
        (case fetch_all (\<lambda>afterID. ListWorkspaces c e 100 [] afterID) [] [] w of
           None \<Rightarrow> None
         | Some (Inl err, w') \<Rightarrow>
             Some (client_error resp (''Unable to list workspaces: '' @ err), w')
         | Some (Inr allWorkspaces, w') \<Rightarrow>
             Some (State_Set resp (data\<lparr>Workspaces := map to_WorkspaceModel allWorkspaces\<rparr>),
                   w')))"

record APIKeyModel =
  APIKeyModel_ID :: tf_string
  APIKeyModel_Name :: tf_string
  APIKeyModel_WorkspaceID :: tf_string
  APIKeyModel_Status :: tf_string
  APIKeyModel_Hint :: tf_string
  APIKeyModel_CreatedAt :: tf_string

record APIKeysDataSourceModel =
  APIKeysDataSource_WorkspaceID :: tf_string
  APIKeysDataSource_Status :: tf_string
  APIKeys :: "APIKeyModel list"

definition to_APIKeyModel :: "APIKey \<Rightarrow> APIKeyModel" where
  "to_APIKeyModel key =
     \<lparr>APIKeyModel_ID = StringValue (APIKey_ID key),
      APIKeyModel_Name = StringValue (APIKey_Name key),
      APIKeyModel_WorkspaceID = value_or_null (APIKey_WorkspaceID key),
      APIKeyModel_Status = StringValue (APIKey_Status key),
      APIKeyModel_Hint = StringValue (APIKey_Hint key),
      APIKeyModel_CreatedAt = StringValue (APIKey_CreatedAt key)\<rparr>"

text \<open>A filter left null in the configuration stays the empty string.\<close>

definition filter_value :: "tf_string \<Rightarrow> string" where
  "filter_value v = (if \<not> IsNull v then ValueString v else [])"

definition APIKeysDataSource_Read ::
  "Client \<Rightarrow> env \<Rightarrow> APIKeysDataSourceModel got \<Rightarrow> APIKeysDataSourceModel response \<Rightarrow> wire
     \<Rightarrow> (APIKeysDataSourceModel response \<times> wire) option" where
  "APIKeysDataSource_Read c e config resp w =
     (let data = snd config; resp = Append resp (fst config) in
      if HasError (Diagnostics resp) then Some (resp, w)
      else
        (let workspaceID = filter_value (APIKeysDataSource_WorkspaceID data);
             status = filter_value (APIKeysDataSource_Status data)
         in case fetch_all (\<lambda>afterID. ListAPIKeys c e 100 [] afterID status workspaceID) [] [] w of
           None \<Rightarrow> None
         | Some (Inl err, w') \<Rightarrow>
             Some (client_error resp (''Unable to list API keys: '' @ err), w')
         | Some (Inr allAPIKeys, w') \<Rightarrow>
             Some (State_Set resp (data\<lparr>APIKeys := map to_APIKeyModel allAPIKeys\<rparr>), w')))"

subsection \<open>Provider configuration\<close>

record AnthropicProviderModel =
  Provider_AdminKey :: tf_string
  Provider_BaseURL :: tf_string

record ConfigureResponse =
  Configure_Diagnostics :: diagnostics
  DataSourceData :: "Client option"
  ResourceData :: "Client option"

text \<open>\<open>getenv\<close> is \<^verbatim>\<open>os.Getenv\<close>: the empty string for a variable that is not set.\<close>

definition Configure ::
  "(string \<Rightarrow> string) \<Rightarrow> AnthropicProviderModel got \<Rightarrow> ConfigureResponse \<Rightarrow> ConfigureResponse" where
  "Configure getenv cfg resp =
     (let config = snd cfg;
          resp = resp\<lparr>Configure_Diagnostics := Configure_Diagnostics resp @ fst cfg\<rparr> in
      if HasError (Configure_Diagnostics resp) then resp
      else
        (let adminKey = getenv ''ANTHROPIC_ADMIN_KEY'';
             adminKey = (if \<not> IsNull (Provider_AdminKey config)
                         then ValueString (Provider_AdminKey config) else adminKey)
         in if adminKey = [] then
              resp\<lparr>Configure_Diagnostics :=
                     AddError (Configure_Diagnostics resp) ''Missing Admin Key''
                       ''The admin_key must be set in the provider configuration or via the ANTHROPIC_ADMIN_KEY environment variable.''\<rparr>
            else
              (let baseURL = getenv ''ANTHROPIC_BASE_URL'';
                   baseURL = (if \<not> IsNull (Provider_BaseURL config)
                              then ValueString (Provider_BaseURL config) else baseURL);
                   c = NewClient adminKey;
                   c = (if baseURL \<noteq> [] then WithBaseURL c baseURL else c)
               in resp\<lparr>DataSourceData := Some c, ResourceData := Some c\<rparr>)))"

section \<open>Specification vocabulary and example environments\<close>

text \<open>
  The state that a successful import leaves: the three attributes written over the state
  that was there (the all-null object on the null state).
\<close>

definition imported ::
  "string \<Rightarrow> string \<Rightarrow> string \<Rightarrow> WorkspaceMemberResourceModel response
     \<Rightarrow> WorkspaceMemberResourceModel response" where
  "imported ID p0 p1 resp =
     resp\<lparr>State :=
            Some ((case State resp of None \<Rightarrow> null_WorkspaceMemberResourceModel | Some m \<Rightarrow> m)
                    \<lparr>WorkspaceMemberResource_ID := StringValue ID,
                     WorkspaceMemberResource_WorkspaceID := StringValue p0,
                     WorkspaceMemberResource_UserID := StringValue p1\<rparr>)\<rparr>"

text \<open>
  Example environments. \<open>respond_env status body\<close> builds every request, answers it
  with the given status and body and decodes nothing; \<open>failing_env\<close> loses every round trip. An example
  that needs a decoder sets it by record update.
\<close>

definition example_client :: Client where
  "example_client = NewClient ''sk-ant-admin-example''"

definition respond_env :: "int \<Rightarrow> string \<Rightarrow> env" where
  "respond_env status body =
     \<lparr>new_request = (\<lambda>method url. None),
      http_do = (\<lambda>h req. Responded status body),
      unmarshal_APIError = (\<lambda>b. Inl ''invalid character'' ),
      unmarshal_Workspace = (\<lambda>b. Inl ''invalid character''),
      unmarshal_APIKey = (\<lambda>b. Inl ''invalid character''),
      unmarshal_WorkspaceMember = (\<lambda>b. Inl ''invalid character''),
      unmarshal_Invite = (\<lambda>b. Inl ''invalid character''),
      unmarshal_Workspaces = (\<lambda>b. Inl ''invalid character''),
      unmarshal_APIKeys = (\<lambda>b. Inl ''invalid character'')\<rparr>"

definition failing_env :: env where
  "failing_env = (respond_env 0 [])\<lparr>http_do := (\<lambda>h req. DoFailed ''connection refused'')\<rparr>"

definition empty_response :: "'m response" where
  "empty_response = \<lparr>Diagnostics = [], State = None\<rparr>"

definition example_member :: WorkspaceMember where
  "example_member =
     \<lparr>WorkspaceMember_UserID = ''user_xyz789'', WorkspaceMember_WorkspaceID = ''wrkspc_abc123'',
      WorkspaceMember_WorkspaceRole = ''workspace_developer'',
      WorkspaceMember_Type = ''workspace_member''\<rparr>"

definition member_env :: env where
  "member_env = (respond_env 200 ''{}'')\<lparr>unmarshal_WorkspaceMember := (\<lambda>b. Inr example_member)\<rparr>"

definition member_plan :: WorkspaceMemberResourceModel where
  "member_plan =
     \<lparr>WorkspaceMemberResource_ID = StringUnknown,
      WorkspaceMemberResource_WorkspaceID = StringValue ''wrkspc_abc123'',
      WorkspaceMemberResource_UserID = StringValue ''user_xyz789'',
      WorkspaceMemberResource_WorkspaceRole = StringValue ''workspace_developer''\<rparr>"

text \<open>
  \<open>api_error_env status body apiErr\<close> answers every request with \<open>status\<close> and \<open>body\<close>,
  and decodes \<open>body\<close> into the error struct \<open>apiErr\<close>.
\<close>

definition api_error_env :: "int \<Rightarrow> string \<Rightarrow> APIError \<Rightarrow> env" where
  "api_error_env status body apiErr =
     (respond_env status body)
       \<lparr>unmarshal_APIError := (\<lambda>b. if b = body then Inr apiErr else Inl ''invalid character'')\<rparr>"

definition flat_error :: APIError where
  "flat_error =
     \<lparr>APIError_Type = ''error'', APIError_Message = ''x'',
      APIError_Error = \<lparr>ErrorBody_Type = [], ErrorBody_Message = []\<rparr>\<rparr>"

definition nested_error :: APIError where
  "nested_error =
     \<lparr>APIError_Type = ''error'', APIError_Message = [],
      APIError_Error = \<lparr>ErrorBody_Type = ''t'', ErrorBody_Message = ''m''\<rparr>\<rparr>"

text \<open>The range of status codes that the specification calls 2xx.\<close>

definition is_2xx :: "int \<Rightarrow> bool" where
  "is_2xx status = (200 \<le> status \<and> status < 300)"

text \<open>The requests that the adapters are specified to issue.\<close>

definition archive_workspace_request :: "Client \<Rightarrow> string \<Rightarrow> http_request" where
  "archive_workspace_request c workspaceID =
     \<lparr>Method = MethodPost,
      URL = BaseURL c @ ''/v1/organizations/workspaces/'' @ workspaceID @ ''/archive'',
      Header = [(''x-api-key'', AdminKey c), (''anthropic-version'', APIVersion c),
                (''Content-Type'', ''application/json'')],
      Body = None\<rparr>"

definition update_api_key_request :: "Client \<Rightarrow> string \<Rightarrow> (string \<times> json) list \<Rightarrow> http_request" where
  "update_api_key_request c apiKeyID members =
     \<lparr>Method = MethodPost,
      URL = BaseURL c @ ''/v1/organizations/api_keys/'' @ apiKeyID,
      Header = [(''x-api-key'', AdminKey c), (''anthropic-version'', APIVersion c),
                (''Content-Type'', ''application/json'')],
      Body = Some (JObject members)\<rparr>"

definition example_key_state :: APIKeyResourceModel where
  "example_key_state =
     \<lparr>APIKeyResource_ID = StringValue ''apikey_01'',
      APIKeyResource_Name = StringValue ''ci'',
      APIKeyResource_WorkspaceID = StringNull,
      APIKeyResource_Status = StringValue ''active'',
      APIKeyResource_Hint = StringValue ''abcd'',
      APIKeyResource_Key = StringValue ''sk-ant-api03-secret'',
      APIKeyResource_CreatedAt = StringValue ''2024-10-30T23:58:27Z''\<rparr>"

definition example_workspace_state :: WorkspaceResourceModel where
  "example_workspace_state =
     \<lparr>WorkspaceResource_ID = StringValue ''wrkspc_abc123'',
      WorkspaceResource_Name = StringValue ''production'',
      WorkspaceResource_DisplayName = StringValue ''production'',
      WorkspaceResource_CreatedAt = StringValue ''2024-10-30T23:58:27Z'',
      WorkspaceResource_ArchivedAt = StringNull\<rparr>"

text \<open>The API key as the remote API reports it after creation: without the secret.\<close>

definition example_key :: APIKey where
  "example_key =
     \<lparr>APIKey_ID = ''apikey_01'', APIKey_Type = ''api_key'', APIKey_Name = ''ci'',
      APIKey_Hint = ''abcd'', APIKey_CreatedAt = ''2024-10-30T23:58:27Z'',
      APIKey_CreatedBy = None, APIKey_Status = ''active'', APIKey_WorkspaceID = [],
      APIKey_Key = []\<rparr>"

definition key_env :: env where
  "key_env = (respond_env 200 ''{}'')\<lparr>unmarshal_APIKey := (\<lambda>b. Inr example_key)\<rparr>"

text \<open>
  What the specification asks of an adapter whose Domain Operation failed: the state of
  the response is the one handed in, and the diagnostics are those handed in, those of the
  decoding, and one "Client Error" with the given detail.
\<close>

definition reports_and_keeps :: "'m response \<Rightarrow> diagnostics \<Rightarrow> string \<Rightarrow> 'm response \<Rightarrow> bool" where
  "reports_and_keeps resp ds detail resp' =
     (State resp' = State resp
      \<and> Diagnostics resp' =
          Diagnostics resp @ ds
          @ [\<lparr>Severity = SeverityError, Summary = ''Client Error'', Detail = detail\<rparr>])"

definition example_member_state :: WorkspaceMemberResourceModel where
  "example_member_state =
     \<lparr>WorkspaceMemberResource_ID = StringValue ''wrkspc_abc123/user_xyz789'',
      WorkspaceMemberResource_WorkspaceID = StringValue ''wrkspc_abc123'',
      WorkspaceMemberResource_UserID = StringValue ''user_xyz789'',
      WorkspaceMemberResource_WorkspaceRole = StringValue ''workspace_developer''\<rparr>"

definition example_invite_state :: InviteResourceModel where
  "example_invite_state =
     \<lparr>InviteResource_ID = StringValue ''invite_01'',
      InviteResource_Email = StringValue ''dev@example.com'',
      InviteResource_Role = StringValue ''developer'',
      InviteResource_Status = StringValue ''pending'',
      InviteResource_CreatedAt = StringValue ''2024-10-30T23:58:27Z'',
      InviteResource_ExpiresAt = StringValue ''2024-11-20T23:58:27Z'',
      InviteResource_InviterID = StringNull\<rparr>"

text \<open>The response as the framework hands it to Read, Update and Delete.\<close>

definition prior_response :: "'m \<Rightarrow> 'm response" where
  "prior_response st = \<lparr>Diagnostics = [], State = Some st\<rparr>"

text \<open>
  The credential and the base URL are each resolved from the configuration value when it
  is not null and from the environment value otherwise.
\<close>

definition resolve :: "tf_string \<Rightarrow> string \<Rightarrow> string" where
  "resolve configured environment =
     (if IsNull configured then environment else ValueString configured)"

definition missing_admin_key :: diagnostic where
  "missing_admin_key =
     \<lparr>Severity = SeverityError, Summary = ''Missing Admin Key'',
      Detail = ''The admin_key must be set in the provider configuration or via the ANTHROPIC_ADMIN_KEY environment variable.''\<rparr>"

definition environment :: "(string \<times> string) list \<Rightarrow> string \<Rightarrow> string" where
  "environment vars name = (case map_of vars name of None \<Rightarrow> [] | Some v \<Rightarrow> v)"

definition fresh_configure_response :: ConfigureResponse where
  "fresh_configure_response =
     \<lparr>Configure_Diagnostics = [], DataSourceData = None, ResourceData = None\<rparr>"

subsection \<open>Pagination\<close>

text \<open>
  \<open>served list afterID w pages\<close>: starting with the cursor \<open>afterID\<close> on the wire \<open>w\<close>,
  the successive List calls that carry the last id of the previous page forward are
  answered with \<open>pages\<close>, in this order. \<open>page_cursors pages afterID\<close> are the cursors of
  those calls.
\<close>

definition next_cursor :: "'a ListResponse \<Rightarrow> string" where
  "next_cursor page = (case LastID page of None \<Rightarrow> [] | Some lastID \<Rightarrow> lastID)"

fun page_cursors :: "'a ListResponse list \<Rightarrow> string \<Rightarrow> string list" where
  "page_cursors [] afterID = []"
| "page_cursors (p # ps) afterID = afterID # page_cursors ps (next_cursor p)"

fun served ::
  "(string \<Rightarrow> wire \<Rightarrow> (string + 'a ListResponse) \<times> wire) \<Rightarrow> string \<Rightarrow> wire
     \<Rightarrow> 'a ListResponse list \<Rightarrow> bool" where
  "served list afterID w [] = True"
| "served list afterID w (p # ps) =
     (fst (list afterID w) = Inr p \<and> served list (next_cursor p) (snd (list afterID w)) ps)"

text \<open>The page requests of the two collection data sources, for a cursor.\<close>

definition list_workspaces_request :: "Client \<Rightarrow> string \<Rightarrow> http_request" where
  "list_workspaces_request c afterID =
     \<lparr>Method = MethodGet,
      URL = BaseURL c @ ''/v1/organizations/workspaces?limit=100''
            @ (if afterID = [] then [] else ''&after_id='' @ afterID),
      Header = [(''x-api-key'', AdminKey c), (''anthropic-version'', APIVersion c),
                (''Content-Type'', ''application/json'')],
      Body = None\<rparr>"

definition list_api_keys_request :: "Client \<Rightarrow> string \<Rightarrow> string \<Rightarrow> string \<Rightarrow> http_request" where
  "list_api_keys_request c status workspaceID afterID =
     \<lparr>Method = MethodGet,
      URL = BaseURL c @ ''/v1/organizations/api_keys?limit=100''
            @ (if afterID = [] then [] else ''&after_id='' @ afterID)
            @ (if status = [] then [] else ''&status='' @ status)
            @ (if workspaceID = [] then [] else ''&workspace_id='' @ workspaceID),
      Header = [(''x-api-key'', AdminKey c), (''anthropic-version'', APIVersion c),
                (''Content-Type'', ''application/json'')],
      Body = None\<rparr>"

text \<open>
  A stub of the remote List operation: the first request on the wire, whatever it asks,
  is answered with status 200 and the body \<open>page-0\<close>, the second with \<open>page-1\<close>, and
  every later one with \<open>page-2\<close>.
\<close>

definition page_body :: "nat \<Rightarrow> string" where
  "page_body i = (if i = 0 then ''page-0'' else if i = 1 then ''page-1'' else ''page-2'')"

definition paged_env :: env where
  "paged_env =
     (respond_env 200 [])\<lparr>http_do := (\<lambda>h req. Responded 200 (page_body (length h)))\<rparr>"

definition workspace_item :: "nat \<Rightarrow> Workspace" where
  "workspace_item i =
     zero_Workspace\<lparr>Workspace_ID := ''wrkspc_'' @ digits i, Workspace_Type := ''workspace'',
                    Workspace_Name := ''team-'' @ digits i\<rparr>"

definition workspace_items :: "nat \<Rightarrow> nat \<Rightarrow> Workspace list" where
  "workspace_items lo hi = map workspace_item [lo..<hi]"

definition workspace_pages :: "Workspace ListResponse list" where
  "workspace_pages =
     [\<lparr>Data = workspace_items 0 100, HasMore = True,
       FirstID = Some ''wrkspc_0'', LastID = Some ''wrkspc_99''\<rparr>,
      \<lparr>Data = workspace_items 100 200, HasMore = True,
       FirstID = Some ''wrkspc_100'', LastID = Some ''wrkspc_199''\<rparr>,
      \<lparr>Data = workspace_items 200 240, HasMore = False,
       FirstID = Some ''wrkspc_200'', LastID = Some ''wrkspc_239''\<rparr>]"

definition three_workspace_pages_env :: env where
  "three_workspace_pages_env =
     paged_env
       \<lparr>unmarshal_Workspaces :=
          (\<lambda>b. if b = ''page-0'' then Inr (workspace_pages ! 0)
                else if b = ''page-1'' then Inr (workspace_pages ! 1)
                else Inr (workspace_pages ! 2))\<rparr>"

definition key_item :: "nat \<Rightarrow> APIKey" where
  "key_item i =
     zero_APIKey\<lparr>APIKey_ID := ''apikey_'' @ digits i, APIKey_Type := ''api_key'',
                 APIKey_Name := ''key-'' @ digits i, APIKey_Status := ''active'',
                 APIKey_WorkspaceID := ''wrkspc_abc123''\<rparr>"

definition key_items :: "nat \<Rightarrow> nat \<Rightarrow> APIKey list" where
  "key_items lo hi = map key_item [lo..<hi]"

definition key_pages :: "APIKey ListResponse list" where
  "key_pages =
     [\<lparr>Data = key_items 0 100, HasMore = True,
       FirstID = Some ''apikey_0'', LastID = Some ''apikey_99''\<rparr>,
      \<lparr>Data = key_items 100 200, HasMore = True,
       FirstID = Some ''apikey_100'', LastID = Some ''apikey_199''\<rparr>,
      \<lparr>Data = key_items 200 240, HasMore = False,
       FirstID = Some ''apikey_200'', LastID = Some ''apikey_239''\<rparr>]"

definition three_pages_env :: env where
  "three_pages_env =
     three_workspace_pages_env
       \<lparr>unmarshal_APIKeys :=
          (\<lambda>b. if b = ''page-0'' then Inr (key_pages ! 0)
                else if b = ''page-1'' then Inr (key_pages ! 1)
                else Inr (key_pages ! 2))\<rparr>"

text \<open>
  A stub whose first page reports more data and a last id that is present and empty,
  followed by a final page.
\<close>

definition empty_cursor_pages :: "Workspace ListResponse list" where
  "empty_cursor_pages =
     [\<lparr>Data = workspace_items 0 1, HasMore = True, FirstID = Some [], LastID = Some []\<rparr>,
      \<lparr>Data = workspace_items 1 2, HasMore = False, FirstID = None, LastID = None\<rparr>]"

definition empty_cursor_env :: env where
  "empty_cursor_env =
     paged_env
       \<lparr>unmarshal_Workspaces :=
          (\<lambda>b. if b = ''page-0'' then Inr (empty_cursor_pages ! 0)
                else Inr (empty_cursor_pages ! 1))\<rparr>"

subsection \<open>Requests that cannot be built\<close>

text \<open>
  A stub of \<^verbatim>\<open>http.NewRequestWithContext\<close> that refuses a URL without a scheme, as the
  URL parser does for a base URL such as \<open>127.0.0.1:8080\<close>; every request that is built
  is answered with status 200 and an empty body.
\<close>

definition has_scheme :: "string \<Rightarrow> bool" where
  "has_scheme url = (take 7 url = ''http://'' \<or> take 8 url = ''https://'')"

definition scheme_env :: env where
  "scheme_env =
     (respond_env 200 [])
       \<lparr>new_request :=
          (\<lambda>method url. if has_scheme url then None
                         else Some ''first path segment in URL cannot contain colon'')\<rparr>"

definition schemeless_client :: Client where
  "schemeless_client = WithBaseURL example_client ''127.0.0.1:8080''"

section \<open>Properties\<close>

subsection \<open>Splitting at a separator\<close>

lemma Split_no_sep: "sep \<notin> set s \<Longrightarrow> Split s sep = [s]"
  by (simp add: Split.simps)

lemma cut_at_first:
  assumes "sep \<notin> set a"
  shows "takeWhile (\<lambda>c. c \<noteq> sep) (a @ sep # b) = a"
    and "dropWhile (\<lambda>c. c \<noteq> sep) (a @ sep # b) = sep # b"
proof -
  have ne: "\<And>x. x \<in> set a \<Longrightarrow> x \<noteq> sep" using assms by blast
  show "takeWhile (\<lambda>c. c \<noteq> sep) (a @ sep # b) = a"
    by (simp add: ne)
  show "dropWhile (\<lambda>c. c \<noteq> sep) (a @ sep # b) = sep # b"
    by (simp add: ne)
qed

lemma Split_cut:
  "sep \<notin> set a \<Longrightarrow> Split (a @ sep # b) sep = a # Split b sep"
  by (subst Split.simps) (simp add: cut_at_first)

lemma Split_two: "sep \<notin> set a \<Longrightarrow> sep \<notin> set b \<Longrightarrow> Split (a @ sep # b) sep = [a, b]"
  by (simp add: Split_cut Split_no_sep)

lemma length_Split: "length (Split s sep) = Suc (count_list s sep)"
proof (induction s sep rule: Split.induct)
  case (1 s sep)
  show ?case
  proof (cases "sep \<in> set s")
    case True
    then obtain a b where s: "s = a @ sep # b" and a: "sep \<notin> set a"
      by (meson split_list_first)
    have d: "tl (dropWhile (\<lambda>c. c \<noteq> sep) s) = b"
      using a by (simp add: s cut_at_first)
    have "length (Split b sep) = Suc (count_list b sep)"
      using "1.IH" [OF True] by (simp add: d)
    moreover have "count_list a sep = 0" using a by (simp add: count_list_0_iff)
    ultimately show ?thesis
      by (simp add: s Split_cut [OF a])
  next
    case False
    then show ?thesis by (simp add: Split_no_sep count_list_0_iff)
  qed
qed

lemma one_sep_form:
  assumes "count_list s sep = 1"
  shows "\<exists>a b. s = a @ sep # b \<and> sep \<notin> set a \<and> sep \<notin> set b"
proof -
  have "sep \<in> set s" using assms by (metis count_list_0_iff zero_neq_one)
  then obtain a b where s: "s = a @ sep # b" and a: "sep \<notin> set a"
    by (meson split_list_first)
  have "count_list a sep = 0" using a by (simp add: count_list_0_iff)
  then have "count_list b sep = 0" using assms by (simp add: s)
  then have "sep \<notin> set b" by (simp add: count_list_0_iff)
  then show ?thesis using s a by blast
qed

subsection \<open>Workspace member: composite id and import\<close>

lemma ImportState_two_segments:
  assumes "CHR ''/'' \<notin> set a" and "CHR ''/'' \<notin> set b"
  shows "WorkspaceMemberResource_ImportState (a @ ''/'' @ b) resp = imported (a @ ''/'' @ b) a b resp"
proof -
  have "Split (a @ ''/'' @ b) CHR ''/'' = [a, b]"
    using Split_two [OF assms] by simp
  then show ?thesis
    by (simp add: WorkspaceMemberResource_ImportState_def SetAttribute_def imported_def
          split: option.split)
qed

lemma ImportState_one_slash:
  assumes "count_list ID CHR ''/'' = 1"
  shows "WorkspaceMemberResource_ImportState ID resp =
           imported ID (takeWhile (\<lambda>c. c \<noteq> CHR ''/'') ID)
             (tl (dropWhile (\<lambda>c. c \<noteq> CHR ''/'') ID)) resp"
proof -
  obtain a b where ID: "ID = a @ CHR ''/'' # b" and a: "CHR ''/'' \<notin> set a"
    and b: "CHR ''/'' \<notin> set b"
    using one_sep_form [OF assms] by blast
  show ?thesis
    using ImportState_two_segments [OF a b, of resp] by (simp add: ID cut_at_first [OF a])
qed

lemma ImportState_other:
  assumes "count_list ID CHR ''/'' \<noteq> 1"
  shows "WorkspaceMemberResource_ImportState ID resp =
           resp\<lparr>Diagnostics := AddError (Diagnostics resp) ''Invalid Import ID''
                   (''Expected import ID format: workspace_id/user_id, got: '' @ ID)\<rparr>"
proof -
  have "length (Split ID CHR ''/'') \<noteq> 2"
    using assms by (simp add: length_Split)
  then show ?thesis
    by (cases "Split ID CHR ''/''" rule: remdups_adj.cases)
       (simp_all add: WorkspaceMemberResource_ImportState_def split: list.split)
qed

lemma Create_member_ok:
  assumes "\<not> HasError (Diagnostics resp @ fst plan)"
    and "AddWorkspaceMember c e (ValueString (WorkspaceMemberResource_WorkspaceID (snd plan)))
           \<lparr>AddWorkspaceMemberRequest_UserID = ValueString (WorkspaceMemberResource_UserID (snd plan)),
            AddWorkspaceMemberRequest_WorkspaceRole =
              ValueString (WorkspaceMemberResource_WorkspaceRole (snd plan))\<rparr> w = (Inr member, w')"
  shows "WorkspaceMemberResource_Create c e plan resp w =
           (\<lparr>Diagnostics = Diagnostics resp @ fst plan,
             State = Some \<lparr>WorkspaceMemberResource_ID =
                             StringValue (WorkspaceMember_WorkspaceID member @ ''/''
                                          @ WorkspaceMember_UserID member),
                           WorkspaceMemberResource_WorkspaceID =
                             StringValue (WorkspaceMember_WorkspaceID member),
                           WorkspaceMemberResource_UserID =
                             StringValue (WorkspaceMember_UserID member),
                           WorkspaceMemberResource_WorkspaceRole =
                             StringValue (WorkspaceMember_WorkspaceRole member)\<rparr>\<rparr>, w')"
  using assms
  by (simp add: WorkspaceMemberResource_Create_def Let_def Append_def State_Set_def)

text \<open>
  Claim C1. A successful Create of a workspace member stores the id
  \<open>workspace_id/user_id\<close>, composed from the two fields echoed in the add-member
  response. ImportState of a string with exactly one \<open>/\<close> adds no diagnostic and sets
  \<open>id\<close> to the string and \<open>workspace_id\<close>, \<open>user_id\<close> to the parts before and after
  the slash, so the id of a created member whose two ids hold no slash imports to the
  same pair. ImportState of any other string leaves the state as it was and reports
  the error "Invalid Import ID" that names the expected format.
\<close>

theorem workspace_member_composite_id:
  "(\<not> HasError (Diagnostics resp @ fst plan)
    \<and> AddWorkspaceMember c e (ValueString (WorkspaceMemberResource_WorkspaceID (snd plan)))
         \<lparr>AddWorkspaceMemberRequest_UserID = ValueString (WorkspaceMemberResource_UserID (snd plan)),
          AddWorkspaceMemberRequest_WorkspaceRole =
            ValueString (WorkspaceMemberResource_WorkspaceRole (snd plan))\<rparr> w = (Inr member, w')
    \<longrightarrow> WorkspaceMemberResource_Create c e plan resp w =
          (\<lparr>Diagnostics = Diagnostics resp @ fst plan,
            State = Some \<lparr>WorkspaceMemberResource_ID =
                            StringValue (WorkspaceMember_WorkspaceID member @ ''/''
                                         @ WorkspaceMember_UserID member),
                          WorkspaceMemberResource_WorkspaceID =
                            StringValue (WorkspaceMember_WorkspaceID member),
                          WorkspaceMemberResource_UserID =
                            StringValue (WorkspaceMember_UserID member),
                          WorkspaceMemberResource_WorkspaceRole =
                            StringValue (WorkspaceMember_WorkspaceRole member)\<rparr>\<rparr>, w'))
   \<and> (count_list ID CHR ''/'' = 1
      \<longrightarrow> WorkspaceMemberResource_ImportState ID r =
            imported ID (takeWhile (\<lambda>c. c \<noteq> CHR ''/'') ID)
              (tl (dropWhile (\<lambda>c. c \<noteq> CHR ''/'') ID)) r)
   \<and> (CHR ''/'' \<notin> set workspace_id \<and> CHR ''/'' \<notin> set user_id
      \<longrightarrow> WorkspaceMemberResource_ImportState (workspace_id @ ''/'' @ user_id) r =
            imported (workspace_id @ ''/'' @ user_id) workspace_id user_id r)
   \<and> (count_list ID' CHR ''/'' \<noteq> 1
      \<longrightarrow> WorkspaceMemberResource_ImportState ID' r =
            r\<lparr>Diagnostics := AddError (Diagnostics r) ''Invalid Import ID''
                 (''Expected import ID format: workspace_id/user_id, got: '' @ ID')\<rparr>)"
  using Create_member_ok ImportState_one_slash ImportState_two_segments ImportState_other
  by blast

theorem workspace_member_composite_id_witness:
  "WorkspaceMemberResource_Create example_client member_env ([], member_plan) empty_response [] =
     (\<lparr>Diagnostics = [],
       State = Some \<lparr>WorkspaceMemberResource_ID = StringValue ''wrkspc_abc123/user_xyz789'',
                     WorkspaceMemberResource_WorkspaceID = StringValue ''wrkspc_abc123'',
                     WorkspaceMemberResource_UserID = StringValue ''user_xyz789'',
                     WorkspaceMemberResource_WorkspaceRole = StringValue ''workspace_developer''\<rparr>\<rparr>,
      [build_request example_client MethodPost
         ''/v1/organizations/workspaces/wrkspc_abc123/members''
         (Some (JObject [(''user_id'', JString ''user_xyz789''),
                         (''workspace_role'', JString ''workspace_developer'')]))])
   \<and> WorkspaceMemberResource_ImportState ''wrkspc_abc123/user_xyz789'' empty_response =
       \<lparr>Diagnostics = [],
        State = Some \<lparr>WorkspaceMemberResource_ID = StringValue ''wrkspc_abc123/user_xyz789'',
                      WorkspaceMemberResource_WorkspaceID = StringValue ''wrkspc_abc123'',
                      WorkspaceMemberResource_UserID = StringValue ''user_xyz789'',
                      WorkspaceMemberResource_WorkspaceRole = StringNull\<rparr>\<rparr>
   \<and> WorkspaceMemberResource_ImportState ''bad-format-no-slash-or-two/slashes/here'' empty_response =
       \<lparr>Diagnostics =
          [\<lparr>Severity = SeverityError, Summary = ''Invalid Import ID'',
            Detail = ''Expected import ID format: workspace_id/user_id, got: bad-format-no-slash-or-two/slashes/here''\<rparr>],
        State = None\<rparr>"
  using workspace_member_composite_id
    [of "empty_response :: WorkspaceMemberResourceModel response" "([], member_plan)" example_client member_env "[]"
        example_member
        "[build_request example_client MethodPost
           ''/v1/organizations/workspaces/wrkspc_abc123/members''
           (Some (JObject [(''user_id'', JString ''user_xyz789''),
                           (''workspace_role'', JString ''workspace_developer'')]))]"
        "''wrkspc_abc123/user_xyz789''" empty_response
        "''wrkspc_abc123''" "''user_xyz789''"
        "''bad-format-no-slash-or-two/slashes/here''"]
  by (simp add: empty_response_def HasError_def member_plan_def AddWorkspaceMember_def
        doRequest_def member_env_def respond_env_def marshal_AddWorkspaceMemberRequest_def
        example_member_def imported_def null_WorkspaceMemberResourceModel_def AddError_def)

subsection \<open>Transport: API failures\<close>

text \<open>
  Claim C2, as amended. For every HTTP response whose status is 400 or above,
  \<open>doRequest\<close> returns a failure whose message starts with the status code. When the body
  decodes as the error struct, the message goes on with \<open>type: message\<close>, taken from the
  nested \<open>error\<close> object when its message is not empty and from the top-level fields
  otherwise; when the body does not decode, the message goes on with the raw body.
  A response with a status below 400, inside the 2xx range or not, is never an API
  failure: without a destination or with an empty body the call succeeds, and otherwise
  the body is decoded into the destination, a decoding error being the only failure.
\<close>

theorem doRequest_api_error:
  assumes "new_request e method (BaseURL c @ path) = None"
    and "http_do e w (build_request c method path body) = Responded status respBody"
  shows "(status \<ge> 400
          \<longrightarrow> fst (doRequest c e method path body result zero w) =
                Inl (''API error (status '' @ fmt_d status @ ''): ''
                     @ (case unmarshal_APIError e respBody of
                          Inl err \<Rightarrow> respBody
                        | Inr apiErr \<Rightarrow>
                            if ErrorBody_Message (APIError_Error apiErr) \<noteq> []
                            then ErrorBody_Type (APIError_Error apiErr) @ '': ''
                                 @ ErrorBody_Message (APIError_Error apiErr)
                            else APIError_Type apiErr @ '': '' @ APIError_Message apiErr)))
       \<and> (status < 400
          \<longrightarrow> fst (doRequest c e method path body result zero w) =
                (case result of
                   None \<Rightarrow> Inr zero
                 | Some unmarshal \<Rightarrow>
                     if respBody = [] then Inr zero
                     else (case unmarshal respBody of
                             Inl err \<Rightarrow> Inl (''failed to unmarshal response: '' @ err)
                           | Inr v \<Rightarrow> Inr v)))"
  using assms
  by (simp add: doRequest_def APIError_String_def split: sum.split option.split)

theorem doRequest_api_error_witness:
  "fst (doRequest example_client (api_error_env 404 ''{type:error,message:x}'' flat_error) MethodGet
          ''/v1/organizations/api_keys/apikey_01'' None
          (Some (unmarshal_APIKey (api_error_env 404 ''{type:error,message:x}'' flat_error)))
          zero_APIKey []) =
     Inl ''API error (status 404): error: x''
   \<and> fst (doRequest example_client
            (api_error_env 400 ''{type:error,error:{type:t,message:m}}'' nested_error) MethodGet
            ''/v1/organizations/api_keys/apikey_01'' None
            (Some (unmarshal_APIKey
                     (api_error_env 400 ''{type:error,error:{type:t,message:m}}'' nested_error)))
            zero_APIKey []) =
       Inl ''API error (status 400): t: m''
   \<and> fst (doRequest example_client (respond_env 502 ''<html>Bad Gateway</html>'') MethodGet
            ''/v1/organizations/api_keys/apikey_01'' None
            (Some (unmarshal_APIKey (respond_env 502 ''<html>Bad Gateway</html>'')))
            zero_APIKey []) =
       Inl ''API error (status 502): <html>Bad Gateway</html>''
   \<and> fst (doRequest example_client key_env MethodGet
            ''/v1/organizations/api_keys/apikey_01'' None
            (Some (unmarshal_APIKey key_env)) zero_APIKey []) =
       Inr example_key
   \<and> fst (doRequest example_client (respond_env 399 ''<html>'') MethodGet
            ''/v1/organizations/api_keys/apikey_01'' None
            (Some (unmarshal_APIKey (respond_env 399 ''<html>''))) zero_APIKey []) =
       Inl ''failed to unmarshal response: invalid character''"
  using doRequest_api_error
          [of "api_error_env 404 ''{type:error,message:x}'' flat_error" MethodGet example_client
              "''/v1/organizations/api_keys/apikey_01''" "[]" None 404 "''{type:error,message:x}''"
              "Some (unmarshal_APIKey (api_error_env 404 ''{type:error,message:x}'' flat_error))"
              zero_APIKey]
        doRequest_api_error
          [of "api_error_env 400 ''{type:error,error:{type:t,message:m}}'' nested_error"
              MethodGet example_client
              "''/v1/organizations/api_keys/apikey_01''" "[]" None 400
              "''{type:error,error:{type:t,message:m}}''"
              "Some (unmarshal_APIKey
                       (api_error_env 400 ''{type:error,error:{type:t,message:m}}'' nested_error))"
              zero_APIKey]
        doRequest_api_error
          [of "respond_env 502 ''<html>Bad Gateway</html>''" MethodGet example_client
              "''/v1/organizations/api_keys/apikey_01''" "[]" None 502 "''<html>Bad Gateway</html>''"
              "Some (unmarshal_APIKey (respond_env 502 ''<html>Bad Gateway</html>''))"
              zero_APIKey]
        doRequest_api_error
          [of key_env MethodGet example_client
              "''/v1/organizations/api_keys/apikey_01''" "[]" None 200 "''{}''"
              "Some (unmarshal_APIKey key_env)" zero_APIKey]
        doRequest_api_error
          [of "respond_env 399 ''<html>''" MethodGet example_client
              "''/v1/organizations/api_keys/apikey_01''" "[]" None 399 "''<html>''"
              "Some (unmarshal_APIKey (respond_env 399 ''<html>''))" zero_APIKey]
  by (simp add: api_error_env_def respond_env_def key_env_def flat_error_def nested_error_def
        fmt_d_def digits.simps digit_def)

text \<open>
  Claim C2 as stated speaks of every status outside the 2xx range. The transport tests
  \<open>status \<ge> 400\<close>: a response 304 with an empty body is returned as a success, with the
  destination left at its zero value.
\<close>

theorem doRequest_not_modified_counterexample:
  "\<not> is_2xx 304
   \<and> fst (doRequest example_client (respond_env 304 []) MethodGet
            ''/v1/organizations/workspaces/wrkspc_abc123'' None
            (Some (unmarshal_Workspace (respond_env 304 []))) zero_Workspace []) =
       Inr zero_Workspace"
  by (simp add: is_2xx_def doRequest_def respond_env_def)

subsection \<open>Requests on the wire: delete is archive\<close>

lemma doRequest_wire:
  "snd (doRequest c e method path body result zero w) =
     (if new_request e method (BaseURL c @ path) = None
      then w @ [build_request c method path body] else w)"
  by (simp add: doRequest_def Let_def split: option.split)

lemma doRequest_ok_wire:
  "fst (doRequest c e method path body result zero w) = Inr v
   \<Longrightarrow> snd (doRequest c e method path body result zero w) = w @ [build_request c method path body]"
  by (simp add: doRequest_def Let_def split: option.splits)

lemma UpdateAPIKey_wire:
  "snd (UpdateAPIKey c e apiKeyID req w) =
     (if new_request e MethodPost (BaseURL c @ ''/v1/organizations/api_keys/'' @ apiKeyID) = None
      then w @ [update_api_key_request c apiKeyID
                  (omitempty ''name'' (UpdateAPIKeyRequest_Name req)
                   @ omitempty ''status'' (UpdateAPIKeyRequest_Status req))]
      else w)"
  by (simp add: UpdateAPIKey_def doRequest_wire build_request_def update_api_key_request_def
        marshal_UpdateAPIKeyRequest_def)

lemma DeleteAPIKey_wire:
  "snd (DeleteAPIKey c e apiKeyID w) =
     (if new_request e MethodPost (BaseURL c @ ''/v1/organizations/api_keys/'' @ apiKeyID) = None
      then w @ [update_api_key_request c apiKeyID [(''status'', JString ''archived'')]]
      else w)"
proof -
  have "snd (DeleteAPIKey c e apiKeyID w) =
          snd (UpdateAPIKey c e apiKeyID
                 \<lparr>UpdateAPIKeyRequest_Name = [], UpdateAPIKeyRequest_Status = ''archived''\<rparr> w)"
    by (simp add: DeleteAPIKey_def split: prod.split sum.split)
  then show ?thesis
    by (simp add: UpdateAPIKey_wire omitempty_def)
qed

lemma ArchiveWorkspace_wire:
  "snd (ArchiveWorkspace c e workspaceID w) =
     (if new_request e MethodPost
           (BaseURL c @ ''/v1/organizations/workspaces/'' @ workspaceID @ ''/archive'') = None
      then w @ [archive_workspace_request c workspaceID] else w)"
  by (simp add: ArchiveWorkspace_def doRequest_wire build_request_def archive_workspace_request_def)




text \<open>
  Claim C5, as amended. Deleting a Workspace resource issues exactly one request, the POST
  on \<open>.../workspaces/{id}/archive\<close>, and deleting an APIKey resource issues exactly one
  request, the POST on \<open>.../api_keys/{id}\<close> whose body sets \<open>status\<close> to \<open>archived\<close>,
  whenever the prior state was decoded without an error diagnostic and the request can be
  built; otherwise the delete issues no request. No delete invocation on these two
  resource kinds issues a request with the DELETE verb.
\<close>

theorem delete_is_archive:
  "snd (WorkspaceResource_Delete c e state resp w) =
     (if \<not> HasError (Diagnostics resp @ fst state)
         \<and> new_request e MethodPost
             (URL (archive_workspace_request c (ValueString (WorkspaceResource_ID (snd state))))) = None
      then w @ [archive_workspace_request c (ValueString (WorkspaceResource_ID (snd state)))]
      else w)
   \<and> filter (\<lambda>r. Method r = MethodDelete)
       (drop (length w) (snd (WorkspaceResource_Delete c e state resp w))) = []
   \<and> snd (APIKeyResource_Delete c e kstate kresp w) =
       (if \<not> HasError (Diagnostics kresp @ fst kstate)
           \<and> new_request e MethodPost
               (URL (update_api_key_request c (ValueString (APIKeyResource_ID (snd kstate)))
                       [(''status'', JString ''archived'')])) = None
        then w @ [update_api_key_request c (ValueString (APIKeyResource_ID (snd kstate)))
                    [(''status'', JString ''archived'')]]
        else w)
   \<and> filter (\<lambda>r. Method r = MethodDelete)
       (drop (length w) (snd (APIKeyResource_Delete c e kstate kresp w))) = []"
proof -
  have ws: "snd (WorkspaceResource_Delete c e state resp w) =
              (if HasError (Diagnostics resp @ fst state) then w
               else snd (ArchiveWorkspace c e (ValueString (WorkspaceResource_ID (snd state))) w))"
    by (simp add: WorkspaceResource_Delete_def Let_def Append_def split: prod.split sum.split)
  have key: "snd (APIKeyResource_Delete c e kstate kresp w) =
               (if HasError (Diagnostics kresp @ fst kstate) then w
                else snd (DeleteAPIKey c e (ValueString (APIKeyResource_ID (snd kstate))) w))"
    by (simp add: APIKeyResource_Delete_def Let_def Append_def split: prod.split option.split)
  show ?thesis
    by (simp add: ws key ArchiveWorkspace_wire DeleteAPIKey_wire archive_workspace_request_def
          update_api_key_request_def)
qed

theorem delete_is_archive_witness:
  "snd (WorkspaceResource_Delete example_client (respond_env 200 []) ([], example_workspace_state)
          \<lparr>Diagnostics = [], State = Some example_workspace_state\<rparr> []) =
     [\<lparr>Method = MethodPost,
       URL = ''https://api.anthropic.com/v1/organizations/workspaces/wrkspc_abc123/archive'',
       Header = [(''x-api-key'', ''sk-ant-admin-example''), (''anthropic-version'', ''2023-06-01''),
                 (''Content-Type'', ''application/json'')],
       Body = None\<rparr>]
   \<and> snd (APIKeyResource_Delete example_client (respond_env 200 []) ([], example_key_state)
            \<lparr>Diagnostics = [], State = Some example_key_state\<rparr> []) =
       [\<lparr>Method = MethodPost,
         URL = ''https://api.anthropic.com/v1/organizations/api_keys/apikey_01'',
         Header = [(''x-api-key'', ''sk-ant-admin-example''), (''anthropic-version'', ''2023-06-01''),
                   (''Content-Type'', ''application/json'')],
         Body = Some (JObject [(''status'', JString ''archived'')])\<rparr>]"
  using delete_is_archive
          [of example_client "respond_env 200 []" "([], example_workspace_state)"
              "\<lparr>Diagnostics = [], State = Some example_workspace_state\<rparr>" "[]"
              "([], example_key_state)" "\<lparr>Diagnostics = [], State = Some example_key_state\<rparr>"]
  by (simp add: HasError_def archive_workspace_request_def update_api_key_request_def
        example_workspace_state_def example_key_state_def example_client_def NewClient_def
        DefaultBaseURL_def DefaultAPIVersion_def respond_env_def)

text \<open>
  Claim C5 as stated has every delete invocation issue exactly one request. With a
  base URL that has no scheme neither request can be built: both deletes report the error
  and issue no request at all.
\<close>

theorem delete_unbuildable_counterexample:
  "WorkspaceResource_Delete schemeless_client scheme_env ([], example_workspace_state)
     (prior_response example_workspace_state) [] =
     (\<lparr>Diagnostics =
         [\<lparr>Severity = SeverityError, Summary = ''Client Error'',
           Detail = ''Unable to archive workspace: failed to create request: first path segment in URL cannot contain colon''\<rparr>],
       State = Some example_workspace_state\<rparr>, [])
   \<and> APIKeyResource_Delete schemeless_client scheme_env ([], example_key_state)
       (prior_response example_key_state) [] =
       (\<lparr>Diagnostics =
           [\<lparr>Severity = SeverityError, Summary = ''Client Error'',
             Detail = ''Unable to delete API key: failed to create request: first path segment in URL cannot contain colon''\<rparr>],
         State = Some example_key_state\<rparr>, [])"
  by (simp add: WorkspaceResource_Delete_def APIKeyResource_Delete_def Let_def Append_def
        HasError_def prior_response_def ArchiveWorkspace_def DeleteAPIKey_def UpdateAPIKey_def
        doRequest_def scheme_env_def respond_env_def schemeless_client_def WithBaseURL_def
        example_client_def NewClient_def has_scheme_def client_error_def AddError_def
        example_workspace_state_def example_key_state_def)

subsection \<open>API key: differential update\<close>

lemma update_request_members:
  "omitempty ''name'' (UpdateAPIKeyRequest_Name (update_request data state))
   @ omitempty ''status'' (UpdateAPIKeyRequest_Status (update_request data state)) =
     (if APIKeyResource_Name data \<noteq> APIKeyResource_Name state
         \<and> ValueString (APIKeyResource_Name data) \<noteq> []
      then [(''name'', JString (ValueString (APIKeyResource_Name data)))] else [])
     @ (if APIKeyResource_Status data \<noteq> APIKeyResource_Status state
           \<and> ValueString (APIKeyResource_Status data) \<noteq> []
        then [(''status'', JString (ValueString (APIKeyResource_Status data)))] else [])"
  by (cases "APIKeyResource_Status data")
     (simp_all add: update_request_def Let_def Equal_def omitempty_def)

lemma APIKeyResource_Update_wire:
  "snd (APIKeyResource_Update c e plan prior resp w) =
     (if HasError (Diagnostics resp @ fst plan @ fst prior) then w
      else snd (UpdateAPIKey c e (ValueString (APIKeyResource_ID (snd plan)))
                  (update_request (snd plan) (snd prior)) w))"
  by (simp add: APIKeyResource_Update_def Let_def Append_def split: prod.split sum.split)

text \<open>
  Claim C4, as amended. An APIKey Update issues its update request whenever the plan and
  the prior state were decoded without an error diagnostic and the request can be built,
  and no request otherwise. The body of that request holds the member \<open>name\<close> if and only
  if the planned name differs from the name in state and is a known, non-empty string,
  and the member \<open>status\<close> if and only if the planned status differs from the stored
  status and is a known, non-empty string (so never for a null or unknown planned
  status); each member present carries the planned value. With name and status unchanged
  the body is the empty object, and changing only the status to a non-empty value sends
  the status alone.
\<close>

theorem api_key_update_is_differential:
  "snd (APIKeyResource_Update c e plan prior resp w) =
     (if \<not> HasError (Diagnostics resp @ fst plan @ fst prior)
         \<and> new_request e MethodPost
             (BaseURL c @ ''/v1/organizations/api_keys/''
              @ ValueString (APIKeyResource_ID (snd plan))) = None
      then
        w @ [\<lparr>Method = MethodPost,
               URL = BaseURL c @ ''/v1/organizations/api_keys/''
                     @ ValueString (APIKeyResource_ID (snd plan)),
               Header = [(''x-api-key'', AdminKey c), (''anthropic-version'', APIVersion c),
                         (''Content-Type'', ''application/json'')],
               Body = Some (JObject
                 ((if APIKeyResource_Name (snd plan) \<noteq> APIKeyResource_Name (snd prior)
                      \<and> ValueString (APIKeyResource_Name (snd plan)) \<noteq> []
                   then [(''name'', JString (ValueString (APIKeyResource_Name (snd plan))))]
                   else [])
                  @ (if APIKeyResource_Status (snd plan) \<noteq> APIKeyResource_Status (snd prior)
                        \<and> ValueString (APIKeyResource_Status (snd plan)) \<noteq> []
                     then [(''status'', JString (ValueString (APIKeyResource_Status (snd plan))))]
                     else [])))\<rparr>]
      else w)"
  by (simp only: APIKeyResource_Update_wire UpdateAPIKey_wire update_request_members
        update_api_key_request_def if_not_P if_P split: if_split)
     simp

theorem api_key_update_is_differential_witness:
  "snd (APIKeyResource_Update example_client key_env ([], example_key_state)
          ([], example_key_state) \<lparr>Diagnostics = [], State = Some example_key_state\<rparr> []) =
     [\<lparr>Method = MethodPost,
       URL = ''https://api.anthropic.com/v1/organizations/api_keys/apikey_01'',
       Header = [(''x-api-key'', ''sk-ant-admin-example''), (''anthropic-version'', ''2023-06-01''),
                 (''Content-Type'', ''application/json'')],
       Body = Some (JObject [])\<rparr>]
   \<and> snd (APIKeyResource_Update example_client key_env
            ([], example_key_state\<lparr>APIKeyResource_Status := StringValue ''inactive''\<rparr>)
            ([], example_key_state) \<lparr>Diagnostics = [], State = Some example_key_state\<rparr> []) =
       [\<lparr>Method = MethodPost,
         URL = ''https://api.anthropic.com/v1/organizations/api_keys/apikey_01'',
         Header = [(''x-api-key'', ''sk-ant-admin-example''), (''anthropic-version'', ''2023-06-01''),
                   (''Content-Type'', ''application/json'')],
         Body = Some (JObject [(''status'', JString ''inactive'')])\<rparr>]"
  using api_key_update_is_differential
          [of example_client key_env "([], example_key_state)" "([], example_key_state)"
              "\<lparr>Diagnostics = [], State = Some example_key_state\<rparr>" "[]"]
        api_key_update_is_differential
          [of example_client key_env
              "([], example_key_state\<lparr>APIKeyResource_Status := StringValue ''inactive''\<rparr>)"
              "([], example_key_state)"
              "\<lparr>Diagnostics = [], State = Some example_key_state\<rparr>" "[]"]
  by (simp add: HasError_def example_key_state_def example_client_def NewClient_def
        DefaultBaseURL_def DefaultAPIVersion_def key_env_def respond_env_def)

text \<open>
  Claim C4 as stated has a field sent whenever its planned value differs from the stored
  one (and, for the status, is not null). An unknown planned status (the attribute is
  optional and computed, and the configuration leaves it out) differs from the stored
  \<open>active\<close> and is not null, yet its string value is empty and \<open>omitempty\<close> drops it:
  the body holds the changed name only. Likewise a planned name that is the empty string
  differs from the stored name and is not in the body.
\<close>

theorem api_key_update_empty_value_counterexample:
  "\<not> Equal StringUnknown (APIKeyResource_Status example_key_state)
   \<and> \<not> IsNull StringUnknown
   \<and> snd (APIKeyResource_Update example_client key_env
            ([], example_key_state\<lparr>APIKeyResource_Name := StringValue ''ci-renamed'',
                                   APIKeyResource_Status := StringUnknown\<rparr>)
            ([], example_key_state) (prior_response example_key_state) []) =
       [update_api_key_request example_client ''apikey_01'' [(''name'', JString ''ci-renamed'')]]
   \<and> \<not> has_field (JObject [(''name'', JString ''ci-renamed'')]) ''status''
   \<and> \<not> Equal (StringValue []) (APIKeyResource_Name example_key_state)
   \<and> snd (APIKeyResource_Update example_client key_env
            ([], example_key_state\<lparr>APIKeyResource_Name := StringValue []\<rparr>)
            ([], example_key_state) (prior_response example_key_state) []) =
       [update_api_key_request example_client ''apikey_01'' []]
   \<and> \<not> has_field (JObject []) ''name''"
  by (simp add: Equal_def example_key_state_def APIKeyResource_Update_def Let_def Append_def
        HasError_def UpdateAPIKey_def doRequest_def build_request_def key_env_def respond_env_def
        update_request_def marshal_UpdateAPIKeyRequest_def omitempty_def has_field_def
        update_api_key_request_def prior_response_def State_Set_def)

subsection \<open>Invite: no update\<close>

text \<open>
  Claim C6. For every client, environment, plan, prior state, response and wire, Update
  of an Invite adds the error diagnostic "Update Not Supported" with its description,
  so the response has an error; it issues no request (the wire is returned as it was)
  and leaves the state of the response unchanged.
\<close>

theorem invite_update_rejected:
  "InviteResource_Update c e plan prior resp w =
     (\<lparr>Diagnostics =
         Diagnostics resp
         @ [\<lparr>Severity = SeverityError, Summary = ''Update Not Supported'',
              Detail = ''Invites cannot be updated. Delete and recreate the invite with the new settings.''\<rparr>],
       State = State resp\<rparr>, w)
   \<and> HasError (Diagnostics (fst (InviteResource_Update c e plan prior resp w)))"
  by (simp add: InviteResource_Update_def AddError_def HasError_def)

subsection \<open>API key: the secret is kept\<close>

text \<open>
  Claim C7. After a successful Read of an APIKey the key of the new state is the key of
  the prior state, whatever key the remote response carries; after a successful Update
  the key of the new state is the key of the prior state, copied over the plan. A stored
  non-empty key is therefore never replaced by an empty or null one.
\<close>

theorem api_key_secret_kept:
  "(\<not> HasError (Diagnostics resp @ fst state)
    \<and> GetAPIKey c e (ValueString (APIKeyResource_ID (snd state))) w = (Inr apiKey, w')
    \<longrightarrow> map_option APIKeyResource_Key (State (fst (APIKeyResource_Read c e state resp w))) =
          Some (APIKeyResource_Key (snd state)))
   \<and> (\<not> HasError (Diagnostics uresp @ fst plan @ fst prior)
      \<and> UpdateAPIKey c e (ValueString (APIKeyResource_ID (snd plan)))
           (update_request (snd plan) (snd prior)) w = (Inr updated, w'')
      \<longrightarrow> map_option APIKeyResource_Key
            (State (fst (APIKeyResource_Update c e plan prior uresp w))) =
            Some (APIKeyResource_Key (snd prior)))"
  by (simp add: APIKeyResource_Read_def APIKeyResource_Update_def Let_def Append_def State_Set_def)

theorem api_key_secret_kept_witness:
  "map_option APIKeyResource_Key
     (State (fst (APIKeyResource_Read example_client key_env ([], example_key_state)
                    \<lparr>Diagnostics = [], State = Some example_key_state\<rparr> []))) =
     Some (StringValue ''sk-ant-api03-secret'')
   \<and> map_option APIKeyResource_Key
       (State (fst (APIKeyResource_Update example_client key_env
                      ([], example_key_state\<lparr>APIKeyResource_Key := StringUnknown,
                                             APIKeyResource_Status := StringValue ''inactive''\<rparr>)
                      ([], example_key_state)
                      \<lparr>Diagnostics = [], State = Some example_key_state\<rparr> []))) =
       Some (StringValue ''sk-ant-api03-secret'')"
  using api_key_secret_kept
          [where resp = "\<lparr>Diagnostics = [], State = Some example_key_state\<rparr>"
             and state = "([], example_key_state)" and c = example_client and e = key_env
             and w = "[]" and apiKey = example_key
             and w' = "[build_request example_client MethodGet
                          ''/v1/organizations/api_keys/apikey_01'' None]"
             and uresp = "\<lparr>Diagnostics = [], State = Some example_key_state\<rparr>"
             and plan = "([], example_key_state\<lparr>APIKeyResource_Key := StringUnknown,
                                                APIKeyResource_Status := StringValue ''inactive''\<rparr>)"
             and prior = "([], example_key_state)" and updated = example_key
             and w'' = "[build_request example_client MethodPost
                           ''/v1/organizations/api_keys/apikey_01''
                           (Some (JObject [(''status'', JString ''inactive'')]))]"]
  by (simp add: HasError_def example_key_state_def GetAPIKey_def UpdateAPIKey_def doRequest_def
        key_env_def respond_env_def update_request_def Equal_def Let_def
        marshal_UpdateAPIKeyRequest_def omitempty_def)

subsection \<open>A failed operation leaves the state alone\<close>

lemma Workspace_Create_failure:
  "(\<not> HasError (Diagnostics wresp @ fst wplan)
    \<and> fst (CreateWorkspace c e \<lparr>CreateWorkspaceRequest_Name = ValueString (WorkspaceResource_Name (snd wplan))\<rparr> w) = Inl err
    \<longrightarrow> reports_and_keeps wresp (fst wplan) (''Unable to create workspace: '' @ err)
          (fst (WorkspaceResource_Create c e wplan wresp w)))"
  by (auto simp: WorkspaceResource_Create_def Let_def Append_def client_error_def AddError_def
        reports_and_keeps_def split: prod.splits sum.splits option.splits)

lemma Workspace_Read_failure:
  "(\<not> HasError (Diagnostics wresp @ fst wstate)
    \<and> fst (GetWorkspace c e (ValueString (WorkspaceResource_ID (snd wstate))) w) = Inl err
    \<longrightarrow> reports_and_keeps wresp (fst wstate) (''Unable to read workspace: '' @ err)
          (fst (WorkspaceResource_Read c e wstate wresp w)))"
  by (auto simp: WorkspaceResource_Read_def Let_def Append_def client_error_def AddError_def
        reports_and_keeps_def split: prod.splits sum.splits option.splits)

lemma Workspace_Update_failure:
  "(\<not> HasError (Diagnostics wresp @ fst wplan)
    \<and> fst (UpdateWorkspace c e (ValueString (WorkspaceResource_ID (snd wplan))) \<lparr>UpdateWorkspaceRequest_Name = ValueString (WorkspaceResource_Name (snd wplan))\<rparr> w) = Inl err
    \<longrightarrow> reports_and_keeps wresp (fst wplan) (''Unable to update workspace: '' @ err)
          (fst (WorkspaceResource_Update c e wplan wresp w)))"
  by (auto simp: WorkspaceResource_Update_def Let_def Append_def client_error_def AddError_def
        reports_and_keeps_def split: prod.splits sum.splits option.splits)

lemma Workspace_Delete_failure:
  "(\<not> HasError (Diagnostics wresp @ fst wstate)
    \<and> fst (ArchiveWorkspace c e (ValueString (WorkspaceResource_ID (snd wstate))) w) = Inl err
    \<longrightarrow> reports_and_keeps wresp (fst wstate) (''Unable to archive workspace: '' @ err)
          (fst (WorkspaceResource_Delete c e wstate wresp w)))"
  by (auto simp: WorkspaceResource_Delete_def Let_def Append_def client_error_def AddError_def
        reports_and_keeps_def split: prod.splits sum.splits option.splits)

lemma APIKey_Create_failure:
  "(\<not> HasError (Diagnostics kresp @ fst kplan)
    \<and> fst (CreateAPIKey c e (create_request (snd kplan)) w) = Inl err
    \<longrightarrow> reports_and_keeps kresp (fst kplan) (''Unable to create API key: '' @ err)
          (fst (APIKeyResource_Create c e kplan kresp w)))"
  by (auto simp: APIKeyResource_Create_def Let_def Append_def client_error_def AddError_def
        reports_and_keeps_def split: prod.splits sum.splits option.splits)

lemma APIKey_Read_failure:
  "(\<not> HasError (Diagnostics kresp @ fst kstate)
    \<and> fst (GetAPIKey c e (ValueString (APIKeyResource_ID (snd kstate))) w) = Inl err
    \<longrightarrow> reports_and_keeps kresp (fst kstate) (''Unable to read API key: '' @ err)
          (fst (APIKeyResource_Read c e kstate kresp w)))"
  by (auto simp: APIKeyResource_Read_def Let_def Append_def client_error_def AddError_def
        reports_and_keeps_def split: prod.splits sum.splits option.splits)

lemma APIKey_Update_failure:
  "(\<not> HasError (Diagnostics kresp @ fst kplan @ fst kstate)
    \<and> fst (UpdateAPIKey c e (ValueString (APIKeyResource_ID (snd kplan))) (update_request (snd kplan) (snd kstate)) w) = Inl err
    \<longrightarrow> reports_and_keeps kresp (fst kplan @ fst kstate) (''Unable to update API key: '' @ err)
          (fst (APIKeyResource_Update c e kplan kstate kresp w)))"
  by (auto simp: APIKeyResource_Update_def Let_def Append_def client_error_def AddError_def
        reports_and_keeps_def split: prod.splits sum.splits option.splits)

lemma APIKey_Delete_failure:
  "(\<not> HasError (Diagnostics kresp @ fst kstate)
    \<and> fst (DeleteAPIKey c e (ValueString (APIKeyResource_ID (snd kstate))) w) = Some err
    \<longrightarrow> reports_and_keeps kresp (fst kstate) (''Unable to delete API key: '' @ err)
          (fst (APIKeyResource_Delete c e kstate kresp w)))"
  by (auto simp: APIKeyResource_Delete_def Let_def Append_def client_error_def AddError_def
        reports_and_keeps_def split: prod.splits sum.splits option.splits)

lemma WorkspaceMember_Create_failure:
  "(\<not> HasError (Diagnostics mresp @ fst mplan)
    \<and> fst (AddWorkspaceMember c e (ValueString (WorkspaceMemberResource_WorkspaceID (snd mplan))) \<lparr>AddWorkspaceMemberRequest_UserID = ValueString (WorkspaceMemberResource_UserID (snd mplan)), AddWorkspaceMemberRequest_WorkspaceRole = ValueString (WorkspaceMemberResource_WorkspaceRole (snd mplan))\<rparr> w) = Inl err
    \<longrightarrow> reports_and_keeps mresp (fst mplan) (''Unable to add workspace member: '' @ err)
          (fst (WorkspaceMemberResource_Create c e mplan mresp w)))"
  by (auto simp: WorkspaceMemberResource_Create_def Let_def Append_def client_error_def AddError_def
        reports_and_keeps_def split: prod.splits sum.splits option.splits)

lemma WorkspaceMember_Read_failure:
  "(\<not> HasError (Diagnostics mresp @ fst mstate)
    \<and> fst (GetWorkspaceMember c e (ValueString (WorkspaceMemberResource_WorkspaceID (snd mstate))) (ValueString (WorkspaceMemberResource_UserID (snd mstate))) w) = Inl err
    \<longrightarrow> reports_and_keeps mresp (fst mstate) (''Unable to read workspace member: '' @ err)
          (fst (WorkspaceMemberResource_Read c e mstate mresp w)))"
  by (auto simp: WorkspaceMemberResource_Read_def Let_def Append_def client_error_def AddError_def
        reports_and_keeps_def split: prod.splits sum.splits option.splits)

lemma WorkspaceMember_Update_failure:
  "(\<not> HasError (Diagnostics mresp @ fst mplan)
    \<and> fst (UpdateWorkspaceMember c e (ValueString (WorkspaceMemberResource_WorkspaceID (snd mplan))) (ValueString (WorkspaceMemberResource_UserID (snd mplan))) \<lparr>UpdateWorkspaceMemberRequest_WorkspaceRole = ValueString (WorkspaceMemberResource_WorkspaceRole (snd mplan))\<rparr> w) = Inl err
    \<longrightarrow> reports_and_keeps mresp (fst mplan) (''Unable to update workspace member: '' @ err)
          (fst (WorkspaceMemberResource_Update c e mplan mresp w)))"
  by (auto simp: WorkspaceMemberResource_Update_def Let_def Append_def client_error_def AddError_def
        reports_and_keeps_def split: prod.splits sum.splits option.splits)

lemma WorkspaceMember_Delete_failure:
  "(\<not> HasError (Diagnostics mresp @ fst mstate)
    \<and> fst (RemoveWorkspaceMember c e (ValueString (WorkspaceMemberResource_WorkspaceID (snd mstate))) (ValueString (WorkspaceMemberResource_UserID (snd mstate))) w) = Some err
    \<longrightarrow> reports_and_keeps mresp (fst mstate) (''Unable to remove workspace member: '' @ err)
          (fst (WorkspaceMemberResource_Delete c e mstate mresp w)))"
  by (auto simp: WorkspaceMemberResource_Delete_def Let_def Append_def client_error_def AddError_def
        reports_and_keeps_def split: prod.splits sum.splits option.splits)

lemma Invite_Create_failure:
  "(\<not> HasError (Diagnostics iresp @ fst iplan)
    \<and> fst (CreateInvite c e \<lparr>CreateInviteRequest_Email = ValueString (InviteResource_Email (snd iplan)), CreateInviteRequest_Role = ValueString (InviteResource_Role (snd iplan))\<rparr> w) = Inl err
    \<longrightarrow> reports_and_keeps iresp (fst iplan) (''Unable to create invite: '' @ err)
          (fst (InviteResource_Create c e iplan iresp w)))"
  by (auto simp: InviteResource_Create_def Let_def Append_def client_error_def AddError_def
        reports_and_keeps_def split: prod.splits sum.splits option.splits)

lemma Invite_Read_failure:
  "(\<not> HasError (Diagnostics iresp @ fst istate)
    \<and> fst (GetInvite c e (ValueString (InviteResource_ID (snd istate))) w) = Inl err
    \<longrightarrow> reports_and_keeps iresp (fst istate) (''Unable to read invite: '' @ err)
          (fst (InviteResource_Read c e istate iresp w)))"
  by (auto simp: InviteResource_Read_def Let_def Append_def client_error_def AddError_def
        reports_and_keeps_def split: prod.splits sum.splits option.splits)

lemma Invite_Delete_failure:
  "(\<not> HasError (Diagnostics iresp @ fst istate)
    \<and> fst (DeleteInvite c e (ValueString (InviteResource_ID (snd istate))) w) = Some err
    \<longrightarrow> reports_and_keeps iresp (fst istate) (''Unable to delete invite: '' @ err)
          (fst (InviteResource_Delete c e istate iresp w)))"
  by (auto simp: InviteResource_Delete_def Let_def Append_def client_error_def AddError_def
        reports_and_keeps_def split: prod.splits sum.splits option.splits)

text \<open>
  Claim C8. For each of the four resource kinds and each of create, read, update and
  delete that reaches a Domain Operation: when the operation returns a failure, the
  adapter adds one "Client Error" diagnostic, whose detail is the static description of
  the action followed by the failure, and returns with the state of the response exactly
  as it was handed in. Nothing is written on a failed create, update or delete, and a
  failed read neither removes nor changes the stored state.
\<close>

theorem failed_operation_keeps_state:
  "(\<not> HasError (Diagnostics wresp @ fst wplan)
    \<and> fst (CreateWorkspace c e \<lparr>CreateWorkspaceRequest_Name = ValueString (WorkspaceResource_Name (snd wplan))\<rparr> w) = Inl err
    \<longrightarrow> reports_and_keeps wresp (fst wplan) (''Unable to create workspace: '' @ err)
          (fst (WorkspaceResource_Create c e wplan wresp w)))
   \<and> (\<not> HasError (Diagnostics wresp @ fst wstate)
    \<and> fst (GetWorkspace c e (ValueString (WorkspaceResource_ID (snd wstate))) w) = Inl err
    \<longrightarrow> reports_and_keeps wresp (fst wstate) (''Unable to read workspace: '' @ err)
          (fst (WorkspaceResource_Read c e wstate wresp w)))
   \<and> (\<not> HasError (Diagnostics wresp @ fst wplan)
    \<and> fst (UpdateWorkspace c e (ValueString (WorkspaceResource_ID (snd wplan))) \<lparr>UpdateWorkspaceRequest_Name = ValueString (WorkspaceResource_Name (snd wplan))\<rparr> w) = Inl err
    \<longrightarrow> reports_and_keeps wresp (fst wplan) (''Unable to update workspace: '' @ err)
          (fst (WorkspaceResource_Update c e wplan wresp w)))
   \<and> (\<not> HasError (Diagnostics wresp @ fst wstate)
    \<and> fst (ArchiveWorkspace c e (ValueString (WorkspaceResource_ID (snd wstate))) w) = Inl err
    \<longrightarrow> reports_and_keeps wresp (fst wstate) (''Unable to archive workspace: '' @ err)
          (fst (WorkspaceResource_Delete c e wstate wresp w)))
   \<and> (\<not> HasError (Diagnostics kresp @ fst kplan)
    \<and> fst (CreateAPIKey c e (create_request (snd kplan)) w) = Inl err
    \<longrightarrow> reports_and_keeps kresp (fst kplan) (''Unable to create API key: '' @ err)
          (fst (APIKeyResource_Create c e kplan kresp w)))
   \<and> (\<not> HasError (Diagnostics kresp @ fst kstate)
    \<and> fst (GetAPIKey c e (ValueString (APIKeyResource_ID (snd kstate))) w) = Inl err
    \<longrightarrow> reports_and_keeps kresp (fst kstate) (''Unable to read API key: '' @ err)
          (fst (APIKeyResource_Read c e kstate kresp w)))
   \<and> (\<not> HasError (Diagnostics kresp @ fst kplan @ fst kstate)
    \<and> fst (UpdateAPIKey c e (ValueString (APIKeyResource_ID (snd kplan))) (update_request (snd kplan) (snd kstate)) w) = Inl err
    \<longrightarrow> reports_and_keeps kresp (fst kplan @ fst kstate) (''Unable to update API key: '' @ err)
          (fst (APIKeyResource_Update c e kplan kstate kresp w)))
   \<and> (\<not> HasError (Diagnostics kresp @ fst kstate)
    \<and> fst (DeleteAPIKey c e (ValueString (APIKeyResource_ID (snd kstate))) w) = Some err
    \<longrightarrow> reports_and_keeps kresp (fst kstate) (''Unable to delete API key: '' @ err)
          (fst (APIKeyResource_Delete c e kstate kresp w)))
   \<and> (\<not> HasError (Diagnostics mresp @ fst mplan)
    \<and> fst (AddWorkspaceMember c e (ValueString (WorkspaceMemberResource_WorkspaceID (snd mplan))) \<lparr>AddWorkspaceMemberRequest_UserID = ValueString (WorkspaceMemberResource_UserID (snd mplan)), AddWorkspaceMemberRequest_WorkspaceRole = ValueString (WorkspaceMemberResource_WorkspaceRole (snd mplan))\<rparr> w) = Inl err
    \<longrightarrow> reports_and_keeps mresp (fst mplan) (''Unable to add workspace member: '' @ err)
          (fst (WorkspaceMemberResource_Create c e mplan mresp w)))
   \<and> (\<not> HasError (Diagnostics mresp @ fst mstate)
    \<and> fst (GetWorkspaceMember c e (ValueString (WorkspaceMemberResource_WorkspaceID (snd mstate))) (ValueString (WorkspaceMemberResource_UserID (snd mstate))) w) = Inl err
    \<longrightarrow> reports_and_keeps mresp (fst mstate) (''Unable to read workspace member: '' @ err)
          (fst (WorkspaceMemberResource_Read c e mstate mresp w)))
   \<and> (\<not> HasError (Diagnostics mresp @ fst mplan)
    \<and> fst (UpdateWorkspaceMember c e (ValueString (WorkspaceMemberResource_WorkspaceID (snd mplan))) (ValueString (WorkspaceMemberResource_UserID (snd mplan))) \<lparr>UpdateWorkspaceMemberRequest_WorkspaceRole = ValueString (WorkspaceMemberResource_WorkspaceRole (snd mplan))\<rparr> w) = Inl err
    \<longrightarrow> reports_and_keeps mresp (fst mplan) (''Unable to update workspace member: '' @ err)
          (fst (WorkspaceMemberResource_Update c e mplan mresp w)))
   \<and> (\<not> HasError (Diagnostics mresp @ fst mstate)
    \<and> fst (RemoveWorkspaceMember c e (ValueString (WorkspaceMemberResource_WorkspaceID (snd mstate))) (ValueString (WorkspaceMemberResource_UserID (snd mstate))) w) = Some err
    \<longrightarrow> reports_and_keeps mresp (fst mstate) (''Unable to remove workspace member: '' @ err)
          (fst (WorkspaceMemberResource_Delete c e mstate mresp w)))
   \<and> (\<not> HasError (Diagnostics iresp @ fst iplan)
    \<and> fst (CreateInvite c e \<lparr>CreateInviteRequest_Email = ValueString (InviteResource_Email (snd iplan)), CreateInviteRequest_Role = ValueString (InviteResource_Role (snd iplan))\<rparr> w) = Inl err
    \<longrightarrow> reports_and_keeps iresp (fst iplan) (''Unable to create invite: '' @ err)
          (fst (InviteResource_Create c e iplan iresp w)))
   \<and> (\<not> HasError (Diagnostics iresp @ fst istate)
    \<and> fst (GetInvite c e (ValueString (InviteResource_ID (snd istate))) w) = Inl err
    \<longrightarrow> reports_and_keeps iresp (fst istate) (''Unable to read invite: '' @ err)
          (fst (InviteResource_Read c e istate iresp w)))
   \<and> (\<not> HasError (Diagnostics iresp @ fst istate)
    \<and> fst (DeleteInvite c e (ValueString (InviteResource_ID (snd istate))) w) = Some err
    \<longrightarrow> reports_and_keeps iresp (fst istate) (''Unable to delete invite: '' @ err)
          (fst (InviteResource_Delete c e istate iresp w)))"
  by (intro conjI Workspace_Create_failure Workspace_Read_failure Workspace_Update_failure Workspace_Delete_failure APIKey_Create_failure APIKey_Read_failure APIKey_Update_failure APIKey_Delete_failure WorkspaceMember_Create_failure WorkspaceMember_Read_failure WorkspaceMember_Update_failure WorkspaceMember_Delete_failure Invite_Create_failure Invite_Read_failure Invite_Delete_failure)

theorem failed_operation_keeps_state_witness:
  "reports_and_keeps (prior_response example_workspace_state) []
       (''Unable to create workspace: request failed: connection refused'')
       (fst (WorkspaceResource_Create example_client failing_env ([], example_workspace_state) (prior_response example_workspace_state) []))
   \<and> reports_and_keeps (prior_response example_workspace_state) []
       (''Unable to read workspace: request failed: connection refused'')
       (fst (WorkspaceResource_Read example_client failing_env ([], example_workspace_state) (prior_response example_workspace_state) []))
   \<and> reports_and_keeps (prior_response example_workspace_state) []
       (''Unable to update workspace: request failed: connection refused'')
       (fst (WorkspaceResource_Update example_client failing_env ([], example_workspace_state) (prior_response example_workspace_state) []))
   \<and> reports_and_keeps (prior_response example_workspace_state) []
       (''Unable to archive workspace: request failed: connection refused'')
       (fst (WorkspaceResource_Delete example_client failing_env ([], example_workspace_state) (prior_response example_workspace_state) []))
   \<and> reports_and_keeps (prior_response example_key_state) []
       (''Unable to create API key: request failed: connection refused'')
       (fst (APIKeyResource_Create example_client failing_env ([], example_key_state) (prior_response example_key_state) []))
   \<and> reports_and_keeps (prior_response example_key_state) []
       (''Unable to read API key: request failed: connection refused'')
       (fst (APIKeyResource_Read example_client failing_env ([], example_key_state) (prior_response example_key_state) []))
   \<and> reports_and_keeps (prior_response example_key_state) []
       (''Unable to update API key: request failed: connection refused'')
       (fst (APIKeyResource_Update example_client failing_env ([], example_key_state) ([], example_key_state) (prior_response example_key_state) []))
   \<and> reports_and_keeps (prior_response example_key_state) []
       (''Unable to delete API key: request failed: connection refused'')
       (fst (APIKeyResource_Delete example_client failing_env ([], example_key_state) (prior_response example_key_state) []))
   \<and> reports_and_keeps (prior_response example_member_state) []
       (''Unable to add workspace member: request failed: connection refused'')
       (fst (WorkspaceMemberResource_Create example_client failing_env ([], example_member_state) (prior_response example_member_state) []))
   \<and> reports_and_keeps (prior_response example_member_state) []
       (''Unable to read workspace member: request failed: connection refused'')
       (fst (WorkspaceMemberResource_Read example_client failing_env ([], example_member_state) (prior_response example_member_state) []))
   \<and> reports_and_keeps (prior_response example_member_state) []
       (''Unable to update workspace member: request failed: connection refused'')
       (fst (WorkspaceMemberResource_Update example_client failing_env ([], example_member_state) (prior_response example_member_state) []))
   \<and> reports_and_keeps (prior_response example_member_state) []
       (''Unable to remove workspace member: request failed: connection refused'')
       (fst (WorkspaceMemberResource_Delete example_client failing_env ([], example_member_state) (prior_response example_member_state) []))
   \<and> reports_and_keeps (prior_response example_invite_state) []
       (''Unable to create invite: request failed: connection refused'')
       (fst (InviteResource_Create example_client failing_env ([], example_invite_state) (prior_response example_invite_state) []))
   \<and> reports_and_keeps (prior_response example_invite_state) []
       (''Unable to read invite: request failed: connection refused'')
       (fst (InviteResource_Read example_client failing_env ([], example_invite_state) (prior_response example_invite_state) []))
   \<and> reports_and_keeps (prior_response example_invite_state) []
       (''Unable to delete invite: request failed: connection refused'')
       (fst (InviteResource_Delete example_client failing_env ([], example_invite_state) (prior_response example_invite_state) []))"
  using failed_operation_keeps_state
          [where c = example_client and e = failing_env and w = "[]" and err = "''request failed: connection refused''" and wresp = "prior_response example_workspace_state" and wplan = "([], example_workspace_state)" and wstate = "([], example_workspace_state)" and kresp = "prior_response example_key_state" and kplan = "([], example_key_state)" and kstate = "([], example_key_state)" and mresp = "prior_response example_member_state" and mplan = "([], example_member_state)" and mstate = "([], example_member_state)" and iresp = "prior_response example_invite_state" and iplan = "([], example_invite_state)" and istate = "([], example_invite_state)"]
  by (simp add: prior_response_def HasError_def failing_env_def respond_env_def doRequest_def
        CreateWorkspace_def GetWorkspace_def UpdateWorkspace_def ArchiveWorkspace_def
        CreateAPIKey_def GetAPIKey_def UpdateAPIKey_def DeleteAPIKey_def
        AddWorkspaceMember_def GetWorkspaceMember_def UpdateWorkspaceMember_def
        RemoveWorkspaceMember_def CreateInvite_def GetInvite_def DeleteInvite_def error_of_def)

subsection \<open>Provider configuration\<close>

text \<open>
  Claim C9, as amended. Configure resolves the credential as the \<open>admin_key\<close> of the
  configuration when that is not null and as the value of \<open>ANTHROPIC_ADMIN_KEY\<close>
  otherwise. When the resolved credential is the empty string, Configure adds the error
  "Missing Admin Key" and hands no client to resources and data sources. Otherwise both
  receive a client with that credential and with the base URL resolved in the same way
  from \<open>base_url\<close> and \<open>ANTHROPIC_BASE_URL\<close>, unless the resolved base URL is the empty
  string: then the client keeps \<open>https://api.anthropic.com\<close>. That is so when neither
  is set, and also when \<open>base_url\<close> is configured as the empty string, whatever the
  environment holds.
\<close>

theorem configure_resolves_credential:
  assumes "\<not> HasError (Configure_Diagnostics resp @ fst cfg)"
  shows "(resolve (Provider_AdminKey (snd cfg)) (getenv ''ANTHROPIC_ADMIN_KEY'') = []
          \<longrightarrow> Configure getenv cfg resp =
                \<lparr>Configure_Diagnostics = Configure_Diagnostics resp @ fst cfg @ [missing_admin_key],
                 DataSourceData = DataSourceData resp, ResourceData = ResourceData resp\<rparr>)
       \<and> (resolve (Provider_AdminKey (snd cfg)) (getenv ''ANTHROPIC_ADMIN_KEY'') \<noteq> []
          \<longrightarrow> Configure getenv cfg resp =
                \<lparr>Configure_Diagnostics = Configure_Diagnostics resp @ fst cfg,
                 DataSourceData =
                   Some \<lparr>BaseURL =
                           (if resolve (Provider_BaseURL (snd cfg)) (getenv ''ANTHROPIC_BASE_URL'') = []
                            then ''https://api.anthropic.com''
                            else resolve (Provider_BaseURL (snd cfg)) (getenv ''ANTHROPIC_BASE_URL'')),
                         AdminKey = resolve (Provider_AdminKey (snd cfg)) (getenv ''ANTHROPIC_ADMIN_KEY''),
                         APIVersion = ''2023-06-01'', Timeout = 30\<rparr>,
                 ResourceData =
                   Some \<lparr>BaseURL =
                           (if resolve (Provider_BaseURL (snd cfg)) (getenv ''ANTHROPIC_BASE_URL'') = []
                            then ''https://api.anthropic.com''
                            else resolve (Provider_BaseURL (snd cfg)) (getenv ''ANTHROPIC_BASE_URL'')),
                         AdminKey = resolve (Provider_AdminKey (snd cfg)) (getenv ''ANTHROPIC_ADMIN_KEY''),
                         APIVersion = ''2023-06-01'', Timeout = 30\<rparr>\<rparr>)"
  using assms
  by (simp add: Configure_def Let_def resolve_def AddError_def missing_admin_key_def
        NewClient_def WithBaseURL_def DefaultBaseURL_def DefaultAPIVersion_def)

theorem configure_resolves_credential_witness:
  "Configure (environment [(''ANTHROPIC_ADMIN_KEY'', ''sk-ant-admin-env''),
                           (''ANTHROPIC_BASE_URL'', ''http://localhost:8080'')])
     ([], \<lparr>Provider_AdminKey = StringValue ''sk-ant-admin-cfg'', Provider_BaseURL = StringNull\<rparr>)
     fresh_configure_response =
     \<lparr>Configure_Diagnostics = [],
      DataSourceData = Some \<lparr>BaseURL = ''http://localhost:8080'', AdminKey = ''sk-ant-admin-cfg'',
                             APIVersion = ''2023-06-01'', Timeout = 30\<rparr>,
      ResourceData = Some \<lparr>BaseURL = ''http://localhost:8080'', AdminKey = ''sk-ant-admin-cfg'',
                           APIVersion = ''2023-06-01'', Timeout = 30\<rparr>\<rparr>
   \<and> Configure (environment [(''ANTHROPIC_ADMIN_KEY'', ''sk-ant-admin-env'')])
       ([], \<lparr>Provider_AdminKey = StringNull, Provider_BaseURL = StringNull\<rparr>)
       fresh_configure_response =
       \<lparr>Configure_Diagnostics = [],
        DataSourceData = Some \<lparr>BaseURL = ''https://api.anthropic.com'',
                               AdminKey = ''sk-ant-admin-env'',
                               APIVersion = ''2023-06-01'', Timeout = 30\<rparr>,
        ResourceData = Some \<lparr>BaseURL = ''https://api.anthropic.com'',
                             AdminKey = ''sk-ant-admin-env'',
                             APIVersion = ''2023-06-01'', Timeout = 30\<rparr>\<rparr>
   \<and> Configure (environment [])
       ([], \<lparr>Provider_AdminKey = StringNull, Provider_BaseURL = StringValue ''http://localhost:8080''\<rparr>)
       fresh_configure_response =
       \<lparr>Configure_Diagnostics = [missing_admin_key], DataSourceData = None, ResourceData = None\<rparr>"
  using configure_resolves_credential
          [of fresh_configure_response
              "([], \<lparr>Provider_AdminKey = StringValue ''sk-ant-admin-cfg'', Provider_BaseURL = StringNull\<rparr>)"
              "environment [(''ANTHROPIC_ADMIN_KEY'', ''sk-ant-admin-env''),
                            (''ANTHROPIC_BASE_URL'', ''http://localhost:8080'')]"]
        configure_resolves_credential
          [of fresh_configure_response
              "([], \<lparr>Provider_AdminKey = StringNull, Provider_BaseURL = StringNull\<rparr>)"
              "environment [(''ANTHROPIC_ADMIN_KEY'', ''sk-ant-admin-env'')]"]
        configure_resolves_credential
          [of fresh_configure_response
              "([], \<lparr>Provider_AdminKey = StringNull, Provider_BaseURL = StringValue ''http://localhost:8080''\<rparr>)"
              "environment []"]
  by (simp add: fresh_configure_response_def HasError_def resolve_def environment_def)

subsection \<open>Collection data sources: draining the pages\<close>

lemma fmt_d_100: "fmt_d 100 = ''100''"
  by (simp add: fmt_d_def digits.simps digit_def)

lemma ListWorkspaces_wire:
  "fst (ListWorkspaces c e 100 [] afterID w) = Inr page
   \<Longrightarrow> snd (ListWorkspaces c e 100 [] afterID w) = w @ [list_workspaces_request c afterID]"
  unfolding ListWorkspaces_def Let_def
  by (drule doRequest_ok_wire)
     (simp add: build_request_def list_workspaces_request_def with_query_def limit_param_def
        string_param_def fmt_d_100)

lemma ListAPIKeys_wire:
  "fst (ListAPIKeys c e 100 [] afterID status workspaceID w) = Inr page
   \<Longrightarrow> snd (ListAPIKeys c e 100 [] afterID status workspaceID w) =
       w @ [list_api_keys_request c status workspaceID afterID]"
  unfolding ListAPIKeys_def Let_def
  by (drule doRequest_ok_wire)
     (simp add: build_request_def list_api_keys_request_def with_query_def limit_param_def
        string_param_def fmt_d_100)

lemma fetch_all_drain:
  assumes wire: "\<And>a w page. fst (list a w) = Inr page \<Longrightarrow> snd (list a w) = w @ [req a]"
  shows "served list afterID w (ps @ [p]) \<Longrightarrow> list_all (\<lambda>q. HasMore q \<and> LastID q \<noteq> None) ps
         \<Longrightarrow> \<not> HasMore p \<or> LastID p = None
         \<Longrightarrow> fetch_all list all afterID w =
               Some (Inr (all @ concat (map Data (ps @ [p]))),
                     w @ map req (page_cursors (ps @ [p]) afterID))"
proof (induction ps arbitrary: all afterID w)
  case Nil
  then have page: "fst (list afterID w) = Inr p" by simp
  then have "list afterID w = (Inr p, w @ [req afterID])"
    using wire [OF page] by (cases "list afterID w") simp
  then show ?case
    using Nil.prems(3) by (subst fetch_all.simps) (auto split: option.split)
next
  case (Cons q ps)
  from Cons.prems(1) have page: "fst (list afterID w) = Inr q" by simp
  then have first: "list afterID w = (Inr q, w @ [req afterID])"
    using wire [OF page] by (cases "list afterID w") simp
  from Cons.prems(2) obtain lastID where q: "HasMore q" "LastID q = Some lastID"
    by auto
  have rest: "served list lastID (w @ [req afterID]) (ps @ [p])"
    using Cons.prems(1) first q by (simp add: next_cursor_def)
  have "fetch_all list all afterID w = fetch_all list (all @ Data q) lastID (w @ [req afterID])"
    by (subst fetch_all.simps) (simp add: first q)
  also have "\<dots> = Some (Inr ((all @ Data q) @ concat (map Data (ps @ [p]))),
                        (w @ [req afterID]) @ map req (page_cursors (ps @ [p]) lastID))"
    using Cons.IH [OF rest _ Cons.prems(3)] Cons.prems(2) by simp
  finally show ?case
    by (simp add: q next_cursor_def)
qed

lemma length_page_cursors: "length (page_cursors ps afterID) = length ps"
  by (induction ps arbitrary: afterID) simp_all

lemma Workspaces_drain:
  assumes "\<not> HasError (Diagnostics resp @ fst config)"
    and "served (\<lambda>afterID. ListWorkspaces c e 100 [] afterID) [] w (ps @ [p])"
    and "list_all (\<lambda>q. HasMore q \<and> LastID q \<noteq> None) ps"
    and "\<not> HasMore p \<or> LastID p = None"
  shows "WorkspacesDataSource_Read c e config resp w =
           Some (\<lparr>Diagnostics = Diagnostics resp @ fst config,
                  State = Some ((snd config)
                            \<lparr>Workspaces := map to_WorkspaceModel (concat (map Data (ps @ [p])))\<rparr>)\<rparr>,
                 w @ map (list_workspaces_request c) (page_cursors (ps @ [p]) []))"
proof -
  have "fetch_all (\<lambda>afterID. ListWorkspaces c e 100 [] afterID) [] [] w =
          Some (Inr ([] @ concat (map Data (ps @ [p]))),
                w @ map (list_workspaces_request c) (page_cursors (ps @ [p]) []))"
    by (rule fetch_all_drain [OF ListWorkspaces_wire assms(2) assms(3) assms(4)])
  then show ?thesis
    using assms(1) by (simp add: WorkspacesDataSource_Read_def Let_def Append_def State_Set_def)
qed

lemma APIKeys_drain:
  assumes "\<not> HasError (Diagnostics resp @ fst config)"
    and "served (\<lambda>afterID. ListAPIKeys c e 100 [] afterID
                              (filter_value (APIKeysDataSource_Status (snd config)))
                              (filter_value (APIKeysDataSource_WorkspaceID (snd config))))
           [] w (ps @ [p])"
    and "list_all (\<lambda>q. HasMore q \<and> LastID q \<noteq> None) ps"
    and "\<not> HasMore p \<or> LastID p = None"
  shows "APIKeysDataSource_Read c e config resp w =
           Some (\<lparr>Diagnostics = Diagnostics resp @ fst config,
                  State = Some ((snd config)
                            \<lparr>APIKeys := map to_APIKeyModel (concat (map Data (ps @ [p])))\<rparr>)\<rparr>,
                 w @ map (list_api_keys_request c
                            (filter_value (APIKeysDataSource_Status (snd config)))
                            (filter_value (APIKeysDataSource_WorkspaceID (snd config))))
                       (page_cursors (ps @ [p]) []))"
proof -
  have "fetch_all (\<lambda>afterID. ListAPIKeys c e 100 [] afterID
                                (filter_value (APIKeysDataSource_Status (snd config)))
                                (filter_value (APIKeysDataSource_WorkspaceID (snd config))))
          [] [] w =
          Some (Inr ([] @ concat (map Data (ps @ [p]))),
                w @ map (list_api_keys_request c
                           (filter_value (APIKeysDataSource_Status (snd config)))
                           (filter_value (APIKeysDataSource_WorkspaceID (snd config))))
                      (page_cursors (ps @ [p]) []))"
    by (rule fetch_all_drain [OF ListAPIKeys_wire assms(2) assms(3) assms(4)])
  then show ?thesis
    using assms(1) by (simp add: APIKeysDataSource_Read_def Let_def Append_def State_Set_def)
qed

text \<open>
  Claim C3, as amended. Let the remote List operation answer the successive page requests
  of a collection data source with the pages \<open>ps @ [p]\<close>, where every page of \<open>ps\<close>
  reports more data and a last id that is present (the empty string included) and \<open>p\<close>
  is the first page that reports no more data or no last id. Then Read returns, issues one
  request per page and no other, each a GET of the collection with \<open>limit=100\<close> and with
  the last id of the page before as \<open>after_id\<close> (none on the first request, and none after
  an empty last id), and stores the items of all pages, concatenated in the order
  received. The API keys data source puts its status and workspace filters, as
  configured, into every one of those requests.
\<close>

theorem collection_drain:
  "(\<not> HasError (Diagnostics resp @ fst config)
    \<and> served (\<lambda>afterID. ListWorkspaces c e 100 [] afterID) [] w (ps @ [p])
    \<and> list_all (\<lambda>q. HasMore q \<and> LastID q \<noteq> None) ps
    \<and> (\<not> HasMore p \<or> LastID p = None)
    \<longrightarrow> WorkspacesDataSource_Read c e config resp w =
          Some (\<lparr>Diagnostics = Diagnostics resp @ fst config,
                 State = Some ((snd config)
                           \<lparr>Workspaces := map to_WorkspaceModel (concat (map Data (ps @ [p])))\<rparr>)\<rparr>,
                w @ map (list_workspaces_request c) (page_cursors (ps @ [p]) []))
        \<and> length (page_cursors (ps @ [p]) []) = Suc (length ps))
   \<and> (\<not> HasError (Diagnostics kresp @ fst kconfig)
      \<and> served (\<lambda>afterID. ListAPIKeys c e 100 [] afterID
                                (filter_value (APIKeysDataSource_Status (snd kconfig)))
                                (filter_value (APIKeysDataSource_WorkspaceID (snd kconfig))))
           [] w (kps @ [kp])
      \<and> list_all (\<lambda>q. HasMore q \<and> LastID q \<noteq> None) kps
      \<and> (\<not> HasMore kp \<or> LastID kp = None)
      \<longrightarrow> APIKeysDataSource_Read c e kconfig kresp w =
            Some (\<lparr>Diagnostics = Diagnostics kresp @ fst kconfig,
                   State = Some ((snd kconfig)
                             \<lparr>APIKeys := map to_APIKeyModel (concat (map Data (kps @ [kp])))\<rparr>)\<rparr>,
                  w @ map (list_api_keys_request c
                             (filter_value (APIKeysDataSource_Status (snd kconfig)))
                             (filter_value (APIKeysDataSource_WorkspaceID (snd kconfig))))
                        (page_cursors (kps @ [kp]) []))
          \<and> length (page_cursors (kps @ [kp]) []) = Suc (length kps))"
  using Workspaces_drain [of resp config c e w ps p] APIKeys_drain [of kresp kconfig c e w kps kp]
  by (simp add: length_page_cursors)

text \<open>
  The example of the specification: a stub that returns three pages of 100, 100 and 40
  items with \<open>has_more\<close> true, true, false. Both data sources issue exactly three
  requests and store the 240 items in their order.
\<close>

lemma upt_split: "lo \<le> mid \<Longrightarrow> mid \<le> hi \<Longrightarrow> [lo..<mid] @ [mid..<hi] = [lo..<hi]"
  using upt_add_eq_append [of lo mid "hi - mid"] by simp

lemma workspace_items_append:
  "lo \<le> mid \<Longrightarrow> mid \<le> hi \<Longrightarrow> workspace_items lo mid @ workspace_items mid hi = workspace_items lo hi"
  unfolding workspace_items_def by (simp add: upt_split flip: map_append)

lemma key_items_append:
  "lo \<le> mid \<Longrightarrow> mid \<le> hi \<Longrightarrow> key_items lo mid @ key_items mid hi = key_items lo hi"
  unfolding key_items_def by (simp add: upt_split flip: map_append)

lemma length_workspace_items: "length (workspace_items lo hi) = hi - lo"
  by (simp add: workspace_items_def)

theorem collection_drain_witness:
  "WorkspacesDataSource_Read example_client three_pages_env ([], \<lparr>Workspaces = []\<rparr>)
     empty_response [] =
     Some (\<lparr>Diagnostics = [],
            State = Some \<lparr>Workspaces = map to_WorkspaceModel (workspace_items 0 240)\<rparr>\<rparr>,
           [list_workspaces_request example_client [],
            list_workspaces_request example_client ''wrkspc_99'',
            list_workspaces_request example_client ''wrkspc_199''])
   \<and> length (workspace_items 0 240) = 240
   \<and> APIKeysDataSource_Read example_client three_pages_env
       ([], \<lparr>APIKeysDataSource_WorkspaceID = StringValue ''wrkspc_abc123'',
             APIKeysDataSource_Status = StringValue ''active'', APIKeys = []\<rparr>)
       empty_response [] =
       Some (\<lparr>Diagnostics = [],
              State = Some \<lparr>APIKeysDataSource_WorkspaceID = StringValue ''wrkspc_abc123'',
                            APIKeysDataSource_Status = StringValue ''active'',
                            APIKeys = map to_APIKeyModel (key_items 0 240)\<rparr>\<rparr>,
             [list_api_keys_request example_client ''active'' ''wrkspc_abc123'' [],
              list_api_keys_request example_client ''active'' ''wrkspc_abc123'' ''apikey_99'',
              list_api_keys_request example_client ''active'' ''wrkspc_abc123'' ''apikey_199''])"
  using collection_drain
          [where resp = empty_response and config = "([], \<lparr>Workspaces = []\<rparr>)"
             and c = example_client and e = three_pages_env and w = "[]"
             and ps = "[workspace_pages ! 0, workspace_pages ! 1]" and p = "workspace_pages ! 2"
             and kresp = empty_response
             and kconfig = "([], \<lparr>APIKeysDataSource_WorkspaceID = StringValue ''wrkspc_abc123'',
                                   APIKeysDataSource_Status = StringValue ''active'',
                                   APIKeys = []\<rparr>)"
             and kps = "[key_pages ! 0, key_pages ! 1]" and kp = "key_pages ! 2"]
  by (simp add: empty_response_def HasError_def workspace_pages_def key_pages_def
        ListWorkspaces_def ListAPIKeys_def doRequest_def Let_def three_pages_env_def
        three_workspace_pages_env_def paged_env_def respond_env_def page_body_def
        next_cursor_def filter_value_def workspace_items_append key_items_append
        length_workspace_items)

text \<open>
  Claim C3 as stated has the loop go on only while the page reports more data and a
  non-empty last id. The loop tests the last id against nil: after a page with
  \<open>has_more\<close> true and the last id \<open>""\<close> it goes on, and asks for the next page
  without a cursor.
\<close>

theorem collection_drain_empty_cursor_counterexample:
  "HasMore (empty_cursor_pages ! 0) \<and> LastID (empty_cursor_pages ! 0) = Some []
   \<and> WorkspacesDataSource_Read example_client empty_cursor_env ([], \<lparr>Workspaces = []\<rparr>)
       empty_response [] =
       Some (\<lparr>Diagnostics = [],
              State = Some \<lparr>Workspaces = map to_WorkspaceModel (workspace_items 0 2)\<rparr>\<rparr>,
             [list_workspaces_request example_client [],
              list_workspaces_request example_client []])"
  using Workspaces_drain
          [where resp = empty_response and config = "([], \<lparr>Workspaces = []\<rparr>)"
             and c = example_client and e = empty_cursor_env and w = "[]"
             and ps = "[empty_cursor_pages ! 0]" and p = "empty_cursor_pages ! 1"]
  by (simp add: empty_response_def HasError_def empty_cursor_pages_def
        ListWorkspaces_def doRequest_def Let_def empty_cursor_env_def
        paged_env_def respond_env_def page_body_def next_cursor_def workspace_items_append)

text \<open>
  Claim C9 as stated gives the client the base URL resolved from configuration over
  environment, with the default only when both are unset. With \<open>base_url\<close> configured
  as the empty string and \<open>ANTHROPIC_BASE_URL\<close> set, the client has neither the
  configured nor the environment value: it has the default.
\<close>

theorem configure_empty_base_url_counterexample:
  "\<not> IsNull (StringValue [])
   \<and> Configure (environment [(''ANTHROPIC_ADMIN_KEY'', ''sk-ant-admin-env''),
                             (''ANTHROPIC_BASE_URL'', ''http://localhost:8080'')])
       ([], \<lparr>Provider_AdminKey = StringNull, Provider_BaseURL = StringValue []\<rparr>)
       fresh_configure_response =
       \<lparr>Configure_Diagnostics = [],
        DataSourceData = Some \<lparr>BaseURL = ''https://api.anthropic.com'',
                               AdminKey = ''sk-ant-admin-env'',
                               APIVersion = ''2023-06-01'', Timeout = 30\<rparr>,
        ResourceData = Some \<lparr>BaseURL = ''https://api.anthropic.com'',
                             AdminKey = ''sk-ant-admin-env'',
                             APIVersion = ''2023-06-01'', Timeout = 30\<rparr>\<rparr>"
  by (simp add: Configure_def Let_def environment_def fresh_configure_response_def HasError_def
        NewClient_def DefaultBaseURL_def DefaultAPIVersion_def)

end
